theory Spec2Isabelle
  imports Main "HOL-Library.Sublist"
begin

section \<open>JavaScript strings and values\<close>

text \<open>
  A JavaScript string is a sequence of UTF-16 code units and \<open>length\<close> counts code
  units. The model uses \<open>string\<close>: one \<open>char\<close> stands for one code unit in the range
  0..255, so the character classes below are the JavaScript ones cut down to that range.
\<close>

definition inRange :: "char \<Rightarrow> char \<Rightarrow> char \<Rightarrow> bool" where
  "inRange lo hi c = ((of_char lo :: nat) \<le> of_char c \<and> (of_char c :: nat) \<le> of_char hi)"

definition isAlnum :: "char \<Rightarrow> bool" where
  "isAlnum c = (inRange (CHR ''a'') (CHR ''z'') c \<or> inRange (CHR ''A'') (CHR ''Z'') c
                \<or> inRange (CHR ''0'') (CHR ''9'') c)"

text \<open>The class \<open>\w\<close>.\<close>

definition isWord :: "char \<Rightarrow> bool" where
  "isWord c = (isAlnum c \<or> c = CHR ''_'')"

text \<open>The class \<open>[a-zA-Z0-9_-]\<close> of \<open>sanitizeToolName\<close>.\<close>

definition isToolChar :: "char \<Rightarrow> bool" where
  "isToolChar c = (isAlnum c \<or> c = CHR ''_'' \<or> c = CHR ''-'')"

text \<open>The class \<open>\s\<close>, which is also what \<open>String.prototype.trim\<close> strips: tab, line
  feed, vertical tab, form feed, carriage return, space and no-break space.\<close>

definition isSpace :: "char \<Rightarrow> bool" where
  "isSpace c = (c = CHR 0x09 \<or> c = CHR 0x0A \<or> c = CHR 0x0B \<or> c = CHR 0x0C \<or> c = CHR 0x0D
                \<or> c = CHR 0x20 \<or> c = CHR 0xA0)"

text \<open>The characters that \<open>.\<close> does not match.\<close>

definition isLineTerminator :: "char \<Rightarrow> bool" where
  "isLineTerminator c = (c = CHR 0x0A \<or> c = CHR 0x0D)"

definition trim :: "string \<Rightarrow> string" where
  "trim s = rev (dropWhile isSpace (rev (dropWhile isSpace s)))"

text \<open>\<open>s.includes(sub)\<close>.\<close>

fun str_includes :: "string \<Rightarrow> string \<Rightarrow> bool" where
  "str_includes [] sub = (sub = [])"
| "str_includes (c # cs) sub = (prefix sub (c # cs) \<or> str_includes cs sub)"

text \<open>\<open>s.split('\n')\<close>: always at least one piece.\<close>

fun split_lines :: "string \<Rightarrow> string list" where
  "split_lines [] = [[]]"
| "split_lines (c # cs) =
     (if c = CHR 0x0A then [] # split_lines cs
      else (case split_lines cs of [] \<Rightarrow> [[c]] | l # ls \<Rightarrow> (c # l) # ls))"

text \<open>Decimal rendering of an array index inside a template string.\<close>

definition digit :: "nat \<Rightarrow> char" where
  "digit d = char_of (48 + d)"

fun showNat :: "nat \<Rightarrow> string" where
  "showNat n = (if n < 10 then [digit n] else showNat (n div 10) @ [digit (n mod 10)])"

declare showNat.simps [simp del]

text \<open>
  Untyped values (\<open>unknown\<close>). Numbers are told apart from the other types only; \<open>JNaN\<close>
  and \<open>JInfinity\<close> are the two results of a division by zero. An object is its list of
  properties in insertion order.
\<close>

datatype jsval =
    JUndefined
  | JNull
  | JBool bool
  | JNum int
  | JNaN
  | JInfinity
  | JStr string
  | JArr "jsval list"
  | JObj "(string \<times> jsval) list"

fun truthy :: "jsval \<Rightarrow> bool" where
  "truthy JUndefined = False"
| "truthy JNull = False"
| "truthy (JBool b) = b"
| "truthy (JNum n) = (n \<noteq> 0)"
| "truthy JNaN = False"
| "truthy JInfinity = True"
| "truthy (JStr s) = (s \<noteq> [])"
| "truthy (JArr xs) = True"
| "truthy (JObj kvs) = True"

fun typeof :: "jsval \<Rightarrow> string" where
  "typeof JUndefined = ''undefined''"
| "typeof JNull = ''object''"
| "typeof (JBool b) = ''boolean''"
| "typeof (JNum n) = ''number''"
| "typeof JNaN = ''number''"
| "typeof JInfinity = ''number''"
| "typeof (JStr s) = ''string''"
| "typeof (JArr xs) = ''object''"
| "typeof (JObj kvs) = ''object''"

text \<open>\<open>p[key]\<close> for the four keys the validator reads: a missing property, and any
  property of an array, is \<open>undefined\<close>.\<close>

fun getProp :: "jsval \<Rightarrow> string \<Rightarrow> jsval" where
  "getProp (JObj kvs) k = (case map_of kvs k of None \<Rightarrow> JUndefined | Some v \<Rightarrow> v)"
| "getProp v k = JUndefined"

fun strOf :: "jsval \<Rightarrow> string" where
  "strOf (JStr s) = s"
| "strOf v = []"

text \<open>Truthiness of an optional string: absent and the empty string are falsy.\<close>

fun truthyStr :: "string option \<Rightarrow> bool" where
  "truthyStr None = False"
| "truthyStr (Some s) = (s \<noteq> [])"

text \<open>
  \<open>Map.prototype.set\<close> and property assignment: an existing key keeps its place and
  takes the new value, a new key goes to the end.
\<close>

fun mapSet :: "('k \<times> 'v) list \<Rightarrow> 'k \<Rightarrow> 'v \<Rightarrow> ('k \<times> 'v) list" where
  "mapSet [] k v = [(k, v)]"
| "mapSet ((k', v') # m) k v = (if k' = k then (k, v) # m else (k', v') # mapSet m k v)"

definition mapHas :: "('k \<times> 'v) list \<Rightarrow> 'k \<Rightarrow> bool" where
  "mapHas m k = (map_of m k \<noteq> None)"

text \<open>Object spread \<open>{...a, ...b}\<close>.\<close>

definition objSpread :: "(string \<times> jsval) list \<Rightarrow> (string \<times> jsval) list \<Rightarrow> (string \<times> jsval) list" where
  "objSpread a b = fold (\<lambda>kv acc. mapSet acc (fst kv) (snd kv)) b a"

text \<open>A thrown value: an \<open>Error\<close> with its message, or anything else, given by what
  \<open>String(error)\<close> yields.\<close>

datatype js_error = Error string | Thrown string

section \<open>DynamicAgentTool\<close>

text \<open>
  Of a tool, the model keeps the agent name, the tool name, the description and the
  execution statistics. The input schema (one constant object for every tool) and the
  calls to the \<open>Logger\<close> class (\<open>src/utils/Logger\<close>, not among the sources) are left
  out, and so are the readings of the wall clock (\<open>Date.now()\<close>, \<open>new Date()\<close>: the
  \<open>lastUsed\<close> field, the timestamp of a log entry, \<open>initTime\<close>); the request id, made of
  the clock and a random number, is an input.
\<close>

record ExecutionStats =
  count :: nat
  totalTime :: nat

record DynamicAgentTool =
  agentName :: string
  tool_name :: string
  tool_description :: string
  executionStats :: ExecutionStats

record McpTextContent =
  mcp_text :: string

record McpToolResponse =
  mcp_content :: "McpTextContent list"
  isError :: bool
  structuredContent :: "(string \<times> jsval) list"

record DynamicAgentParams =
  prompt :: string
  output_instructions :: "string option"
  cwd :: "string option"
  extra_args :: "string list option"

definition DEFAULT_OUTPUT_INSTRUCTIONS :: string where
  "DEFAULT_OUTPUT_INSTRUCTIONS =
     ''Provide a brief summary of what you accomplished or failed to do, '' @
     ''and suggest potential next steps if necessary.''"

text \<open>\<open>agentName.replace(/[^a-zA-Z0-9_-]/g, '_')\<close>: the global replace scans the string
  and rewrites each matching code unit.\<close>

fun replaceInvalid :: "string \<Rightarrow> string" where
  "replaceInvalid [] = []"
| "replaceInvalid (c # cs) = (if isToolChar c then c # replaceInvalid cs else CHR ''_'' # replaceInvalid cs)"

definition sanitizeToolName :: "string \<Rightarrow> string" where
  "sanitizeToolName agent_name = ''agent_'' @ replaceInvalid agent_name"

text \<open>The constructor.\<close>

definition newDynamicAgentTool :: "string \<Rightarrow> string \<Rightarrow> DynamicAgentTool" where
  "newDynamicAgentTool agent_name agentDescription =
     \<lparr>agentName = agent_name, tool_name = sanitizeToolName agent_name,
      tool_description = agentDescription,
      executionStats = \<lparr>count = 0, totalTime = 0\<rparr>\<rparr>"

subsection \<open>validateParams\<close>

fun checkExtraArgs :: "nat \<Rightarrow> jsval list \<Rightarrow> js_error + string list" where
  "checkExtraArgs i [] = Inr []"
| "checkExtraArgs i (arg # rest) =
     (if typeof arg \<noteq> ''string'' then
        Inl (Error (''Extra argument at index '' @ showNat i @ '' must be a string''))
      else if length (strOf arg) > 1000 then
        Inl (Error (''Extra argument at index '' @ showNat i @ '' too long (max 1000 characters)''))
      else (case checkExtraArgs (Suc i) rest of
              Inl e \<Rightarrow> Inl e
            | Inr args \<Rightarrow> Inr (strOf arg # args)))"

definition validateOutputInstructions :: "jsval \<Rightarrow> js_error + string option" where
  "validateOutputInstructions v =
     (if v \<noteq> JUndefined then
        (if typeof v \<noteq> ''string'' then
           Inl (Error ''output_instructions parameter must be a string if provided'')
         else if length (strOf v) > 5000 then
           Inl (Error ''output_instructions too long (max 5,000 characters)'')
         else Inr (Some (strOf v)))
      else Inr None)"

definition validateCwd :: "jsval \<Rightarrow> js_error + string option" where
  "validateCwd v =
     (if v \<noteq> JUndefined then
        (if typeof v \<noteq> ''string'' then
           Inl (Error ''CWD parameter must be a string if provided'')
         else if length (strOf v) > 1000 then
           Inl (Error ''Working directory path too long (max 1000 characters)'')
         else if str_includes (strOf v) ''..'' \<or> str_includes (strOf v) [CHR 0x00] then
           Inl (Error ''Invalid working directory path'')
         else Inr (Some (strOf v)))
      else Inr None)"

definition validateExtraArgs :: "jsval \<Rightarrow> js_error + string list option" where
  "validateExtraArgs v =
     (if v \<noteq> JUndefined then
        (case v of
           JArr xs \<Rightarrow>
             (if length xs > 20 then Inl (Error ''Too many extra arguments (max 20 allowed)'')
              else (case checkExtraArgs 0 xs of Inl e \<Rightarrow> Inl e | Inr args \<Rightarrow> Inr (Some args)))
         | _ \<Rightarrow> Inl (Error ''Extra args parameter must be an array if provided''))
      else Inr None)"

definition validateParams :: "jsval \<Rightarrow> js_error + DynamicAgentParams" where
  "validateParams params =
     (if \<not> truthy params \<or> typeof params \<noteq> ''object'' then
        Inl (Error ''Invalid parameters: expected object'')
      else if \<not> truthy (getProp params ''prompt'') \<or> typeof (getProp params ''prompt'') \<noteq> ''string'' then
        Inl (Error ''Prompt parameter is required and must be a string'')
      else if trim (strOf (getProp params ''prompt'')) = [] then
        Inl (Error ''Invalid prompt parameter: cannot be empty'')
      else if length (trim (strOf (getProp params ''prompt''))) > 50000 then
        Inl (Error ''Prompt too long (max 50,000 characters)'')
      else (case validateOutputInstructions (getProp params ''output_instructions'') of
              Inl e \<Rightarrow> Inl e
            | Inr oi \<Rightarrow>
          (case validateCwd (getProp params ''cwd'') of
              Inl e \<Rightarrow> Inl e
            | Inr wd \<Rightarrow>
          (case validateExtraArgs (getProp params ''extra_args'') of
              Inl e \<Rightarrow> Inl e
            | Inr args \<Rightarrow>
                Inr \<lparr>prompt = trim (strOf (getProp params ''prompt'')),
                     output_instructions = oi, cwd = wd, extra_args = args\<rparr>))))"

subsection \<open>Responses\<close>

text \<open>
  Modelled from the spec: \<open>AgentExecutionResult\<close> is declared in
  \<open>src/execution/AgentExecutor\<close>, which is not among the sources. The fields are the ones
  \<open>formatExecutionResponse\<close> reads; the exit code is an integer, the execution time a
  number of milliseconds, \<open>hasResult\<close> a boolean and \<open>resultJson\<close> any value.
\<close>

record AgentExecutionResult =
  stdout :: string
  stderr :: string
  exitCode :: int
  executionTime :: nat
  hasResult :: bool
  resultJson :: jsval

text \<open>\<open>Math.round(totalTime / count)\<close> on non-negative integers; a zero count gives
  \<open>NaN\<close> or \<open>Infinity\<close>.\<close>

definition averageTime :: "ExecutionStats \<Rightarrow> jsval" where
  "averageTime st =
     (if count st = 0 then (if totalTime st = 0 then JNaN else JInfinity)
      else JNum (int ((2 * totalTime st + count st) div (2 * count st))))"

text \<open>\<open>if (v) { obj[key] = v }\<close> for an optional string \<open>v\<close>.\<close>

definition setIfTruthyStr :: "(string \<times> jsval) list \<Rightarrow> string \<Rightarrow> string option \<Rightarrow> (string \<times> jsval) list" where
  "setIfTruthyStr obj k v =
     (case v of None \<Rightarrow> obj | Some s \<Rightarrow> (if s \<noteq> [] then mapSet obj k (JStr s) else obj))"

definition formatExecutionResponse ::
    "DynamicAgentTool \<Rightarrow> AgentExecutionResult \<Rightarrow> string option \<Rightarrow> string option \<Rightarrow> string option
     \<Rightarrow> McpToolResponse" where
  "formatExecutionResponse tool result requestId agentType model =
     (let isSuccess = (exitCode result = 0 \<or> (exitCode result = 143 \<and> hasResult result = True));
          isPartialSuccess = (exitCode result = 124 \<and> hasResult result = True);
          isErr = (\<not> isSuccess \<and> \<not> isPartialSuccess);
          contentText = (if stdout result \<noteq> [] then stdout result
                         else if stderr result \<noteq> [] then stderr result
                         else ''No output'');
          sc0 = [(''agent'', JStr (agentName tool)),
                 (''toolName'', JStr (tool_name tool)),
                 (''exitCode'', JNum (exitCode result)),
                 (''executionTime'', JNum (int (executionTime result))),
                 (''hasResult'', JBool (hasResult result \<or> False)),
                 (''status'', JStr (if isSuccess then ''success''
                                     else if isPartialSuccess then ''partial'' else ''error''))];
          sc1 = setIfTruthyStr sc0 ''agentType'' agentType;
          sc2 = setIfTruthyStr sc1 ''model'' model;
          sc3 = (if truthy (resultJson result) then mapSet sc2 ''result'' (resultJson result) else sc2);
          sc4 = (if stderr result \<noteq> [] \<and> stdout result \<noteq> []
                 then mapSet sc3 ''stderr'' (JStr (stderr result)) else sc3);
          sc5 = setIfTruthyStr sc4 ''requestId'' requestId;
          sc6 = mapSet sc5 ''usageCount'' (JNum (int (count (executionStats tool))));
          sc7 = mapSet sc6 ''averageTime'' (averageTime (executionStats tool))
      in \<lparr>mcp_content = [\<lparr>mcp_text = contentText\<rparr>], isError = isErr, structuredContent = sc7\<rparr>)"

definition createErrorResponse :: "DynamicAgentTool \<Rightarrow> string \<Rightarrow> McpToolResponse" where
  "createErrorResponse tool errorMessage =
     \<lparr>mcp_content = [\<lparr>mcp_text = ''Error: '' @ errorMessage\<rparr>],
      isError = True,
      structuredContent = [(''status'', JStr ''error''),
                           (''error'', JStr errorMessage),
                           (''agent'', JStr (agentName tool)),
                           (''toolName'', JStr (tool_name tool))]\<rparr>"

definition updateExecutionStats :: "DynamicAgentTool \<Rightarrow> nat \<Rightarrow> DynamicAgentTool" where
  "updateExecutionStats tool t =
     tool\<lparr>executionStats := \<lparr>count = count (executionStats tool) + 1, totalTime = totalTime (executionStats tool) + t\<rparr>\<rparr>"

section \<open>AgentManager\<close>

text \<open>
  \<open>AgentDefinition\<close> as the type declares it. An optional field is an \<open>option\<close>. The
  loader stores in \<open>tools\<close> whatever value it parsed, so the field holds a \<open>jsval\<close>;
  the modification time is a number.
\<close>

record AgentDefinition =
  name :: string
  description :: string
  content :: string
  filePath :: string
  lastModified :: nat
  model :: "string option"
  color :: "string option"
  tools :: "jsval option"
  autoApprovalMode :: "bool option"
  agentType :: "string option"

text \<open>The object \<open>parseFrontmatter\<close> fills in.\<close>

record frontmatter =
  fm_name :: "string option"
  fm_description :: "string option"
  fm_tools :: "string option"
  fm_model :: "string option"
  fm_color :: "string option"
  fm_agentType :: "string option"

definition emptyFrontmatter :: frontmatter where
  "emptyFrontmatter = \<lparr>fm_name = None, fm_description = None, fm_tools = None,
                        fm_model = None, fm_color = None, fm_agentType = None\<rparr>"

text \<open>
  The regular expressions are run the way a backtracking matcher runs them. For
  \<open>\s*\n\<close> at the head of a string, \<open>ws_nl_rests\<close> lists what is left after each
  possible match, the longest match first (the star is greedy).
\<close>

fun ws_nl_rests :: "string \<Rightarrow> string list" where
  "ws_nl_rests [] = []"
| "ws_nl_rests (c # cs) =
     (if isSpace c then ws_nl_rests cs @ (if c = CHR 0x0A then [cs] else []) else [])"

text \<open>
  \<open>([\s\S]*?)\n---\s*\n([\s\S]*)$\<close>: the lazy group grows one code unit at a time until
  the closing delimiter matches; \<open>acc\<close> holds the group so far, reversed.
\<close>

fun find_close :: "string \<Rightarrow> string \<Rightarrow> (string \<times> string) option" where
  "find_close acc [] = None"
| "find_close acc (c # cs) =
     (case (if prefix (CHR 0x0A # ''---'') (c # cs) then ws_nl_rests (drop 4 (c # cs)) else []) of
        body # _ \<Rightarrow> Some (rev acc, body)
      | [] \<Rightarrow> find_close (c # acc) cs)"

fun first_some :: "'a option list \<Rightarrow> 'a option" where
  "first_some [] = None"
| "first_some (None # xs) = first_some xs"
| "first_some (Some x # xs) = Some x"

text \<open>\<open>content.match(/^---\s*\n([\s\S]*?)\n---\s*\n([\s\S]*)$/)\<close>: groups 1 and 2.\<close>

definition matchFrontmatter :: "string \<Rightarrow> (string \<times> string) option" where
  "matchFrontmatter s =
     (if prefix ''---'' s then first_some (map (find_close []) (ws_nl_rests (drop 3 s))) else None)"

text \<open>What is left after \<open>\s*\<close>, the longest match first.\<close>

fun ws_rests :: "string \<Rightarrow> string list" where
  "ws_rests [] = [[]]"
| "ws_rests (c # cs) = (if isSpace c then ws_rests cs else []) @ [c # cs]"

text \<open>\<open>line.match(/^(\w+):\s*(.+)$/)\<close>: groups 1 and 2.\<close>

definition matchKeyValue :: "string \<Rightarrow> (string \<times> string) option" where
  "matchKeyValue line =
     (let key = takeWhile isWord line; rest = dropWhile isWord line in
      if key = [] then None
      else (case rest of
              [] \<Rightarrow> None
            | c # r \<Rightarrow>
                (if c = CHR '':'' then
                   (case find (\<lambda>v. v \<noteq> [] \<and> \<not> list_ex isLineTerminator v) (ws_rests r) of
                      None \<Rightarrow> None
                    | Some v \<Rightarrow> Some (key, v))
                 else None)))"

text \<open>Removing one pair of quotes: \<open>value.slice(1, -1)\<close>.\<close>

definition stripQuotes :: "string \<Rightarrow> string" where
  "stripQuotes v =
     (if (prefix [CHR 0x27] v \<and> suffix [CHR 0x27] v) \<or> (prefix [CHR 0x22] v \<and> suffix [CHR 0x22] v)
      then butlast (tl v) else v)"

text \<open>The body of the loop over the lines of the front matter.\<close>

definition parseLine :: "frontmatter \<Rightarrow> string \<Rightarrow> frontmatter" where
  "parseLine fm line =
     (case matchKeyValue line of
        None \<Rightarrow> fm
      | Some (k, raw) \<Rightarrow>
          (let key = trim k; v = trim raw in
           if key \<noteq> [] \<and> v \<noteq> [] then
             (let val = stripQuotes v in
              if key = ''name'' then fm\<lparr>fm_name := Some val\<rparr>
              else if key = ''description'' then fm\<lparr>fm_description := Some val\<rparr>
              else if key = ''tools'' then fm\<lparr>fm_tools := Some val\<rparr>
              else if key = ''model'' then fm\<lparr>fm_model := Some val\<rparr>
              else if key = ''color'' then fm\<lparr>fm_color := Some val\<rparr>
              else if key = ''agentType'' then
                (if val = ''cursor'' \<or> val = ''claude'' then fm\<lparr>fm_agentType := Some val\<rparr> else fm)
              else fm)
           else fm))"

definition parseFrontmatter :: "string \<Rightarrow> frontmatter \<times> string option" where
  "parseFrontmatter s =
     (case matchFrontmatter s of
        None \<Rightarrow> (emptyFrontmatter, None)
      | Some (frontmatterText, bodyContent) \<Rightarrow>
          ((if frontmatterText \<noteq> [] then foldl parseLine emptyFrontmatter (split_lines frontmatterText)
            else emptyFrontmatter),
           Some bodyContent))"

definition extractDescription :: "string \<Rightarrow> string" where
  "extractDescription s =
     (let lines = filter (\<lambda>line. trim line \<noteq> []) (split_lines s) in
      case find (\<lambda>line. prefix ''#'' line) lines of
        Some line \<Rightarrow> trim (dropWhile isSpace (dropWhile (\<lambda>c. c = CHR ''#'') line))
      | None \<Rightarrow> (case lines of l # _ \<Rightarrow> trim l | [] \<Rightarrow> ''Agent definition''))"

text \<open>
  The file system, as the loader sees it. \<open>readdir\<close> yields the file names in listing
  order, or fails (\<open>None\<close>); a file yields its text and modification time, or reading
  it fails (\<open>None\<close>). Of \<open>node:path\<close>: \<open>resolve\<close> is taken to leave the configured
  directory as it is, \<open>join\<close> to put a slash between directory and file name, and
  \<open>basename\<close> to return what follows the last slash.
\<close>

type_synonym fileData = "string \<times> nat"

type_synonym directory = "(string \<times> fileData option) list"

definition path_join :: "string \<Rightarrow> string \<Rightarrow> string" where
  "path_join dir file = dir @ ''/'' @ file"

definition path_basename :: "string \<Rightarrow> string" where
  "path_basename p = rev (takeWhile (\<lambda>c. c \<noteq> CHR ''/'') (rev p))"

text \<open>\<open>fileName.replace(/\.(md|txt)$/, '')\<close>.\<close>

definition stripExtension :: "string \<Rightarrow> string" where
  "stripExtension f =
     (if suffix ''.md'' f then take (length f - 3) f
      else if suffix ''.txt'' f then take (length f - 4) f
      else f)"

text \<open>\<open>a || b\<close> on strings.\<close>

definition orElse :: "string \<Rightarrow> string \<Rightarrow> string" where
  "orElse a b = (if a \<noteq> [] then a else b)"

definition keepTruthy :: "string option \<Rightarrow> string option" where
  "keepTruthy v = (if truthyStr v then v else None)"

text \<open>\<open>loadAgentFromFile\<close>: any failure to read the file is caught and gives
  \<open>undefined\<close>. The object literal sets no \<open>autoApprovalMode\<close>.\<close>

definition loadAgentFromFile :: "string \<Rightarrow> fileData option \<Rightarrow> AgentDefinition option" where
  "loadAgentFromFile file_path file =
     (case file of
        None \<Rightarrow> None
      | Some (text, mtime) \<Rightarrow>
          (let (fm, bodyContent) = parseFrontmatter text;
               fileBaseName = stripExtension (path_basename file_path);
               agent_name = orElse (case fm_name fm of None \<Rightarrow> [] | Some n \<Rightarrow> n) fileBaseName;
               body = orElse (case bodyContent of None \<Rightarrow> [] | Some b \<Rightarrow> b) text;
               descr = orElse (case fm_description fm of None \<Rightarrow> [] | Some d \<Rightarrow> d)
                              (extractDescription body)
           in Some \<lparr>name = agent_name, description = descr, content = body,
                    filePath = file_path, lastModified = mtime,
                    model = keepTruthy (fm_model fm),
                    color = keepTruthy (fm_color fm),
                    tools = map_option JStr (keepTruthy (fm_tools fm)),
                    autoApprovalMode = None,
                    agentType = keepTruthy (fm_agentType fm)\<rparr>))"

text \<open>
  Modelled from the spec: \<open>ServerConfig\<close> is declared in \<open>src/config/ServerConfig\<close>, which
  is not among the sources. The two settings read here are the agents directory and the
  logging verbosity.
\<close>

datatype LogLevel = Debug | Info | Warn | ErrorLevel

record ServerConfig =
  agentsDir :: string
  logLevel :: LogLevel

text \<open>The loop of \<open>loadAgentsFromDirectory\<close> over the agent files, filling the map.\<close>

fun loadFiles :: "string \<Rightarrow> directory \<Rightarrow> (string \<times> AgentDefinition) list \<Rightarrow> (string \<times> AgentDefinition) list" where
  "loadFiles dir [] agents = agents"
| "loadFiles dir ((file, d) # rest) agents =
     (case loadAgentFromFile (path_join dir file) d of
        None \<Rightarrow> loadFiles dir rest agents
      | Some agent \<Rightarrow> loadFiles dir rest (mapSet agents (name agent) agent))"

definition loadAgentsFromDirectory ::
    "ServerConfig \<Rightarrow> directory option \<Rightarrow> js_error + (string \<times> AgentDefinition) list" where
  "loadAgentsFromDirectory cfg fs =
     (case fs of
        None \<Rightarrow> Inl (Error (''Failed to load agents from directory: '' @ agentsDir cfg))
      | Some files \<Rightarrow>
          Inr (loadFiles (agentsDir cfg)
                 (filter (\<lambda>f. suffix ''.md'' (fst f) \<or> suffix ''.txt'' (fst f)) files) []))"

definition listAgents :: "ServerConfig \<Rightarrow> directory option \<Rightarrow> js_error + AgentDefinition list" where
  "listAgents cfg fs =
     (case loadAgentsFromDirectory cfg fs of Inl e \<Rightarrow> Inl e | Inr agents \<Rightarrow> Inr (map snd agents))"

text \<open>The class \<open>[<>:"/\\|?*;`$()&|\s]\<close>.\<close>

definition isInvalidChar :: "char \<Rightarrow> bool" where
  "isInvalidChar c =
     (c = CHR ''<'' \<or> c = CHR ''>'' \<or> c = CHR '':'' \<or> c = CHR 0x22 \<or> c = CHR ''/''
      \<or> c = CHR 0x5C \<or> c = CHR ''|'' \<or> c = CHR ''?'' \<or> c = CHR ''*'' \<or> c = CHR '';''
      \<or> c = CHR 0x60 \<or> c = CHR ''$'' \<or> c = CHR ''('' \<or> c = CHR '')'' \<or> c = CHR ''&''
      \<or> isSpace c)"

definition isControlChar :: "char \<Rightarrow> bool" where
  "isControlChar c = ((of_char c :: nat) \<le> 31 \<or> (of_char c :: nat) = 127)"

definition getAgent :: "ServerConfig \<Rightarrow> directory option \<Rightarrow> string \<Rightarrow> js_error + AgentDefinition option" where
  "getAgent cfg fs agent_name =
     (if agent_name = [] then Inl (Error ''Invalid agent name: agent name is required'')
      else if length (trim agent_name) = 0 then
        Inl (Error ''Invalid agent name: empty agent name not allowed'')
      else if length agent_name > 255 then Inl (Error ''Invalid agent name: too long agent name'')
      else if list_ex isInvalidChar agent_name then
        Inl (Error ''Invalid agent name: forbidden characters detected'')
      else if list_ex isControlChar agent_name then
        Inl (Error ''Invalid agent name: forbidden characters detected'')
      else if str_includes agent_name ''..'' \<or> str_includes agent_name ''./''
              \<or> str_includes agent_name [CHR ''.'', CHR 0x5C] then
        Inl (Error ''Invalid agent name: path traversal attempt detected'')
      else (case loadAgentsFromDirectory cfg fs of
              Inl e \<Rightarrow> Inl e
            | Inr agents \<Rightarrow> Inr (map_of agents agent_name)))"

section \<open>DynamicAgentTool.execute\<close>

record ExecutionParams =
  ep_agent :: string
  ep_prompt :: string
  ep_cwd :: "string option"
  ep_extra_args :: "string list option"
  ep_agentType :: "string option"
  ep_model :: "string option"

definition errorMessageOr :: "js_error \<Rightarrow> string \<Rightarrow> string" where
  "errorMessageOr e dflt = (case e of Error m \<Rightarrow> m | Thrown s \<Rightarrow> dflt)"

text \<open>
  The \<open>try\<close> block of \<open>execute\<close>: it returns the response and the tool with its
  statistics updated, or throws. The executor (\<open>src/execution/AgentExecutor\<close>, not among
  the sources) is the parameter \<open>executeAgent\<close>.
\<close>

definition executeTry ::
    "DynamicAgentTool \<Rightarrow> ServerConfig \<Rightarrow> directory option
     \<Rightarrow> (ExecutionParams \<Rightarrow> js_error + AgentExecutionResult) \<Rightarrow> string \<Rightarrow> jsval
     \<Rightarrow> js_error + (McpToolResponse \<times> DynamicAgentTool)" where
  "executeTry tool cfg fs executeAgent requestId params =
     (case validateParams params of
        Inl e \<Rightarrow> Inl e
      | Inr validatedParams \<Rightarrow>
     (case getAgent cfg fs (agentName tool) of
        Inl e \<Rightarrow> Inl e
      | Inr None \<Rightarrow> Inl (Error (''Agent '' @ [CHR 0x27] @ agentName tool @ [CHR 0x27] @ '' not found''))
      | Inr (Some agent) \<Rightarrow>
          (let outputInstructions =
                 (if truthyStr (output_instructions validatedParams)
                  then (case output_instructions validatedParams of Some s \<Rightarrow> s | None \<Rightarrow> [])
                  else DEFAULT_OUTPUT_INSTRUCTIONS);
               finalPrompt = prompt validatedParams @ [CHR 0x0A, CHR 0x0A] @ ''[Output Instructions]''
                             @ [CHR 0x0A] @ outputInstructions;
               executionParams =
                 \<lparr>ep_agent = content agent, ep_prompt = finalPrompt,
                  ep_cwd = cwd validatedParams, ep_extra_args = extra_args validatedParams,
                  ep_agentType = keepTruthy (agentType agent), ep_model = keepTruthy (model agent)\<rparr>
           in case executeAgent executionParams of
                Inl e \<Rightarrow> Inl e
              | Inr result \<Rightarrow>
                  (let tool' = updateExecutionStats tool (executionTime result)
                   in Inr (formatExecutionResponse tool' result (Some requestId)
                             (agentType agent) (model agent), tool')))))"

text \<open>\<open>execute\<close>: the \<open>catch\<close> clause turns whatever the block threw into an error
  response, so the call itself returns. (What runs before the block only makes the
  request id and logs.)\<close>

definition execute ::
    "DynamicAgentTool \<Rightarrow> ServerConfig \<Rightarrow> directory option
     \<Rightarrow> (ExecutionParams \<Rightarrow> js_error + AgentExecutionResult) \<Rightarrow> string \<Rightarrow> jsval
     \<Rightarrow> js_error + (McpToolResponse \<times> DynamicAgentTool)" where
  "execute tool cfg fs executeAgent requestId params =
     (case executeTry tool cfg fs executeAgent requestId params of
        Inl e \<Rightarrow> Inr (createErrorResponse tool
                        (''Agent execution failed: '' @ errorMessageOr e ''Unknown error''), tool)
      | Inr r \<Rightarrow> Inr r)"

section \<open>McpServer: the tool registry\<close>

text \<open>
  The server state that \<open>initializeDynamicTools\<close> touches: the configuration, the map
  \<open>dynamicTools\<close> and the lines written by \<open>console.error\<close>, each line the logged
  object, without its timestamp.
\<close>

record McpServer =
  config :: ServerConfig
  dynamicTools :: "(string \<times> DynamicAgentTool) list"
  console :: "(string \<times> jsval) list list"

fun logLevels :: "LogLevel \<Rightarrow> nat" where
  "logLevels Debug = 0"
| "logLevels Info = 1"
| "logLevels Warn = 2"
| "logLevels ErrorLevel = 3"

fun levelName :: "LogLevel \<Rightarrow> string" where
  "levelName Debug = ''debug''"
| "levelName Info = ''info''"
| "levelName Warn = ''warn''"
| "levelName ErrorLevel = ''error''"

text \<open>The object \<open>{level, message, service: 'mcp-server', ...metadata}\<close>.\<close>

definition logEntry :: "LogLevel \<Rightarrow> string \<Rightarrow> (string \<times> jsval) list \<Rightarrow> (string \<times> jsval) list" where
  "logEntry level message metadata =
     objSpread [(''level'', JStr (levelName level)), (''message'', JStr message),
                (''service'', JStr ''mcp-server'')] metadata"

definition log :: "McpServer \<Rightarrow> LogLevel \<Rightarrow> string \<Rightarrow> (string \<times> jsval) list \<Rightarrow> McpServer" where
  "log srv level message metadata =
     (if logLevels level \<ge> logLevels (logLevel (config srv))
      then srv\<lparr>console := console srv @ [logEntry level message metadata]\<rparr>
      else srv)"

text \<open>The metadata of the warning logged at a collision.\<close>

definition collisionWarning :: "string \<Rightarrow> string list \<Rightarrow> (string \<times> jsval) list" where
  "collisionWarning toolName collidingAgents =
     [(''toolName'', JStr toolName),
      (''collidingAgents'', JArr (map JStr collidingAgents)),
      (''message'', JStr (''Multiple agents sanitize to the same tool name '' @ [CHR 0x27] @ toolName
                          @ [CHR 0x27] @ ''. Only the last agent will be accessible.''))]"

text \<open>
  The names already recorded for a tool name at a collision. When none is recorded, the
  name of the registered tool is asked for with \<open>existingTool.getAgentName()\<close>; the class
  \<open>DynamicAgentTool\<close> of the sources declares no such method, so it is the parameter
  \<open>getAgentName\<close>, which may return a name or throw.
\<close>

definition existingAgentsFor ::
    "(DynamicAgentTool \<Rightarrow> js_error + string) \<Rightarrow> (string \<times> string list) list \<Rightarrow> McpServer \<Rightarrow> string
     \<Rightarrow> js_error + string list" where
  "existingAgentsFor getAgentName toolNameToAgents srv toolName =
     (let existingAgents = (case map_of toolNameToAgents toolName of None \<Rightarrow> [] | Some l \<Rightarrow> l) in
      if length existingAgents = 0 then
        (case map_of (dynamicTools srv) toolName of
           None \<Rightarrow> Inr existingAgents
         | Some existingTool \<Rightarrow>
             (case getAgentName existingTool of
                Inl e \<Rightarrow> Inl e
              | Inr n \<Rightarrow> Inr (existingAgents @ [n])))
      else Inr existingAgents)"

text \<open>The loop over the agents. A throw leaves the server as it was mutated so far.\<close>

fun registerAgents ::
    "(DynamicAgentTool \<Rightarrow> js_error + string) \<Rightarrow> AgentDefinition list \<Rightarrow> (string \<times> string list) list
     \<Rightarrow> McpServer \<Rightarrow> (js_error + (string \<times> string list) list) \<times> McpServer" where
  "registerAgents getAgentName [] toolNameToAgents srv = (Inr toolNameToAgents, srv)"
| "registerAgents getAgentName (agent # rest) toolNameToAgents srv =
     (let tool = newDynamicAgentTool (name agent) (description agent) in
      if mapHas (dynamicTools srv) (tool_name tool) then
        (case existingAgentsFor getAgentName toolNameToAgents srv (tool_name tool) of
           Inl e \<Rightarrow> (Inl e, srv)
         | Inr existing \<Rightarrow>
             (let existingAgents = existing @ [name agent];
                  srv' = log srv Warn ''Agent tool name collision detected''
                           (collisionWarning (tool_name tool) existingAgents)
              in registerAgents getAgentName rest
                   (mapSet toolNameToAgents (tool_name tool) existingAgents)
                   (srv'\<lparr>dynamicTools := mapSet (dynamicTools srv') (tool_name tool) tool\<rparr>)))
      else registerAgents getAgentName rest
             (mapSet toolNameToAgents (tool_name tool) [name agent])
             (srv\<lparr>dynamicTools := mapSet (dynamicTools srv) (tool_name tool) tool\<rparr>))"

text \<open>One element of the \<open>collisions\<close> array of the summary.\<close>

definition collisionSummary :: "string \<times> string list \<Rightarrow> jsval" where
  "collisionSummary c =
     JObj [(''toolName'', JStr (fst c)),
           (''agentNames'', JArr (map JStr (snd c))),
           (''hiddenAgents'', JArr (map JStr (butlast (snd c)))),
           (''accessibleAgent'', JStr (last (snd c)))]"

definition collisionsOf :: "(string \<times> string list) list \<Rightarrow> (string \<times> string list) list" where
  "collisionsOf toolNameToAgents = filter (\<lambda>e. length (snd e) > 1) toolNameToAgents"

definition summaryMetadata :: "(string \<times> string list) list \<Rightarrow> (string \<times> jsval) list" where
  "summaryMetadata collisions =
     [(''collisionCount'', JNum (int (length collisions))),
      (''collisions'', JArr (map collisionSummary collisions)),
      (''recommendation'',
       JStr (''Rename agents to avoid name collisions after sanitization. '' @
             ''Agent names should differ by more than just special characters or spaces.''))]"

text \<open>The \<open>try\<close> block of \<open>initializeDynamicTools\<close>.\<close>

definition initializeTry ::
    "(DynamicAgentTool \<Rightarrow> js_error + string) \<Rightarrow> directory option \<Rightarrow> McpServer
     \<Rightarrow> (js_error + unit) \<times> McpServer" where
  "initializeTry getAgentName fs srv =
     (let srv1 = log srv Debug ''Initializing dynamic agent tools'' [] in
      case listAgents (config srv1) fs of
        Inl e \<Rightarrow> (Inl e, srv1)
      | Inr agents \<Rightarrow>
          (case registerAgents getAgentName agents [] srv1 of
             (Inl e, srv2) \<Rightarrow> (Inl e, srv2)
           | (Inr toolNameToAgents, srv2) \<Rightarrow>
               (let collisions = collisionsOf toolNameToAgents;
                    srv3 = (if length collisions > 0
                            then log srv2 ErrorLevel
                                   ''Agent tool name collisions detected during initialization''
                                   (summaryMetadata collisions)
                            else srv2);
                    srv4 = log srv3 Info ''Dynamic agent tools initialized successfully''
                             [(''agentCount'', JNum (int (length agents))),
                              (''toolCount'', JNum (int (length (dynamicTools srv3)))),
                              (''collisionCount'', JNum (int (length collisions)))]
                in (Inr (), srv4))))"

text \<open>\<open>initializeDynamicTools\<close>: the \<open>catch\<close> clause logs and clears the map; nothing
  is rethrown.\<close>

definition initializeDynamicTools ::
    "(DynamicAgentTool \<Rightarrow> js_error + string) \<Rightarrow> directory option \<Rightarrow> McpServer
     \<Rightarrow> (js_error + unit) \<times> McpServer" where
  "initializeDynamicTools getAgentName fs srv =
     (case initializeTry getAgentName fs srv of
        (Inl e, srv') \<Rightarrow>
          (Inr (),
           (log srv' Warn ''Failed to initialize dynamic agent tools (server will have 0 tools)''
              [(''error'', JStr (case e of Error m \<Rightarrow> m | Thrown s \<Rightarrow> s))])\<lparr>dynamicTools := []\<rparr>)
      | (Inr u, srv') \<Rightarrow> (Inr (), srv'))"

text \<open>\<open>listTools\<close>: the registry is built only when it is empty. Of each tool the name
  and the description are listed.\<close>

definition listTools ::
    "(DynamicAgentTool \<Rightarrow> js_error + string) \<Rightarrow> directory option \<Rightarrow> McpServer
     \<Rightarrow> (string \<times> string) list \<times> McpServer" where
  "listTools getAgentName fs srv =
     (let srv' = (if length (dynamicTools srv) = 0
                  then snd (initializeDynamicTools getAgentName fs srv) else srv)
      in (map (\<lambda>e. (tool_name (snd e), tool_description (snd e))) (dynamicTools srv'), srv'))"

section \<open>Notions used in the statements\<close>

text \<open>The \<open>status\<close> entry of the structured content of a response.\<close>

definition statusOf :: "McpToolResponse \<Rightarrow> jsval" where
  "statusOf r = (case map_of (structuredContent r) ''status'' of None \<Rightarrow> JUndefined | Some v \<Rightarrow> v)"

text \<open>The tool the registry build constructs for an agent, the agents that share a tool
  name, and their names in listing order.\<close>

definition toolOf :: "AgentDefinition \<Rightarrow> DynamicAgentTool" where
  "toolOf a = newDynamicAgentTool (name a) (description a)"

definition sameTool :: "string \<Rightarrow> AgentDefinition \<Rightarrow> bool" where
  "sameTool t a = (sanitizeToolName (name a) = t)"

definition groupNames :: "AgentDefinition list \<Rightarrow> string \<Rightarrow> string list" where
  "groupNames agents t = map name (filter (sameTool t) agents)"

text \<open>The collision warnings the loop issues for the agents \<open>rest\<close>, the agents \<open>seen\<close>
  having been registered before them.\<close>

fun warnsFor :: "AgentDefinition list \<Rightarrow> AgentDefinition list \<Rightarrow> (string \<times> jsval) list list" where
  "warnsFor seen [] = []"
| "warnsFor seen (a # rest) =
     (if filter (sameTool (sanitizeToolName (name a))) seen \<noteq> []
      then [logEntry Warn ''Agent tool name collision detected''
              (collisionWarning (sanitizeToolName (name a))
                 (groupNames (seen @ [a]) (sanitizeToolName (name a))))]
      else [])
     @ warnsFor (seen @ [a]) rest"

text \<open>The invariant of the loop: after the agents \<open>seen\<close>, both maps have one entry for
  each tool name met, with the names of its agents and the tool of the last of them.\<close>

definition registryInv ::
    "AgentDefinition list \<Rightarrow> (string \<times> string list) list \<Rightarrow> (string \<times> DynamicAgentTool) list \<Rightarrow> bool" where
  "registryInv seen tn dt =
     (distinct (map fst dt)
      \<and> (\<forall>t. map_of tn t = (if filter (sameTool t) seen = [] then None else Some (groupNames seen t)))
      \<and> (\<forall>t. map_of dt t = (if filter (sameTool t) seen = [] then None
                              else Some (toolOf (last (filter (sameTool t) seen))))))"

text \<open>The console after a build that did not throw.\<close>

definition buildConsole :: "McpServer \<Rightarrow> AgentDefinition list \<Rightarrow> (string \<times> string list) list \<Rightarrow> nat
    \<Rightarrow> (string \<times> jsval) list list" where
  "buildConsole srv agents tn n =
     console srv
     @ (if logLevels Debug \<ge> logLevels (logLevel (config srv))
        then [logEntry Debug ''Initializing dynamic agent tools'' []] else [])
     @ (if logLevels Warn \<ge> logLevels (logLevel (config srv)) then warnsFor [] agents else [])
     @ (if length (collisionsOf tn) > 0
        then [logEntry ErrorLevel ''Agent tool name collisions detected during initialization''
                (summaryMetadata (collisionsOf tn))] else [])
     @ (if logLevels Info \<ge> logLevels (logLevel (config srv))
        then [logEntry Info ''Dynamic agent tools initialized successfully''
                [(''agentCount'', JNum (int (length agents))),
                 (''toolCount'', JNum (int n)),
                 (''collisionCount'', JNum (int (length (collisionsOf tn))))]] else [])"






section \<open>Properties of the tool name\<close>

lemma replaceInvalid_map:
  "replaceInvalid s = map (\<lambda>c. if isToolChar c then c else CHR ''_'') s"
  by (induction s) simp_all

text \<open>
  C6: for every agent name, \<open>sanitizeToolName\<close> yields the prefix \<open>agent_\<close> followed by
  the name in which each code unit outside \<open>[A-Za-z0-9_-]\<close> is replaced by one
  underscore and every other code unit is kept; the length grows by the prefix only, so
  nothing is collapsed or removed.
\<close>

theorem sanitizeToolName_shape:
  "sanitizeToolName agent_name = ''agent_'' @ map (\<lambda>c. if isToolChar c then c else CHR ''_'') agent_name
   \<and> length (sanitizeToolName agent_name) = length ''agent_'' + length agent_name"
  by (simp add: sanitizeToolName_def replaceInvalid_map)

theorem sanitizeToolName_shape_witness:
  "sanitizeToolName ''test agent!@#'' = ''agent_test_agent___''
   \<and> length (sanitizeToolName ''test agent!@#'') = 6 + length ''test agent!@#''"
  using sanitizeToolName_shape [of "''test agent!@#''"]
  by (simp add: isToolChar_def isAlnum_def inRange_def)

section \<open>Properties of the execution response\<close>

lemma map_of_mapSet: "map_of (mapSet m k v) k' = (if k' = k then Some v else map_of m k')"
  by (induction m k v rule: mapSet.induct) auto

lemma map_of_setIfTruthyStr:
  "k' \<noteq> k \<Longrightarrow> map_of (setIfTruthyStr obj k v) k' = map_of obj k'"
  by (simp add: setIfTruthyStr_def map_of_mapSet split: option.splits)

lemma map_of_setIfTruthyStr_same:
  "map_of obj k = None \<Longrightarrow>
   map_of (setIfTruthyStr obj k v) k =
     (case v of None \<Rightarrow> None | Some s \<Rightarrow> if s \<noteq> [] then Some (JStr s) else None)"
  by (simp add: setIfTruthyStr_def map_of_mapSet split: option.splits)

lemma status_formatExecutionResponse:
  "map_of (structuredContent (formatExecutionResponse tool result requestId aType mdl)) ''status'' =
     Some (JStr (if exitCode result = 0 \<or> (exitCode result = 143 \<and> hasResult result) then ''success''
                 else if exitCode result = 124 \<and> hasResult result then ''partial'' else ''error''))"
  by (simp add: formatExecutionResponse_def Let_def map_of_mapSet map_of_setIfTruthyStr)

text \<open>
  C2: the status of an execution response is \<open>success\<close> exactly when the exit code is 0,
  or is 143 with a result captured; \<open>partial\<close> exactly when it is not a success and the
  exit code is 124 with a result captured; \<open>error\<close> exactly in every other case; and
  \<open>isError\<close> is true exactly when the status is \<open>error\<close>.
\<close>

theorem status_classification:
  "(statusOf (formatExecutionResponse tool result requestId aType mdl) = JStr ''success'') =
     (exitCode result = 0 \<or> (exitCode result = 143 \<and> hasResult result))
   \<and> (statusOf (formatExecutionResponse tool result requestId aType mdl) = JStr ''partial'') =
     (\<not> (exitCode result = 0 \<or> (exitCode result = 143 \<and> hasResult result))
      \<and> exitCode result = 124 \<and> hasResult result)
   \<and> (statusOf (formatExecutionResponse tool result requestId aType mdl) = JStr ''error'') =
     (\<not> (exitCode result = 0 \<or> (exitCode result = 143 \<and> hasResult result))
      \<and> \<not> (exitCode result = 124 \<and> hasResult result))
   \<and> isError (formatExecutionResponse tool result requestId aType mdl) =
     (statusOf (formatExecutionResponse tool result requestId aType mdl) = JStr ''error'')"
  unfolding statusOf_def status_formatExecutionResponse
  by (auto simp add: formatExecutionResponse_def Let_def)

theorem status_classification_witness:
  "statusOf (formatExecutionResponse (newDynamicAgentTool ''a'' ''d'')
      \<lparr>stdout = ''out'', stderr = [], exitCode = 143, executionTime = 5, hasResult = True,
       resultJson = JUndefined\<rparr> None None None) = JStr ''success''
   \<and> \<not> isError (formatExecutionResponse (newDynamicAgentTool ''a'' ''d'')
      \<lparr>stdout = ''out'', stderr = [], exitCode = 143, executionTime = 5, hasResult = True,
       resultJson = JUndefined\<rparr> None None None)"
  using status_classification [of "newDynamicAgentTool ''a'' ''d''"
      "\<lparr>stdout = ''out'', stderr = [], exitCode = 143, executionTime = 5, hasResult = True,
        resultJson = JUndefined\<rparr>" None None None]
  by simp

text \<open>
  C9: the only content item of an execution response carries the captured stdout when it
  is not empty, else the captured stderr when that is not empty, else the text
  \<open>No output\<close>, whatever the exit code, the timing, the engine, the model and the
  statistics are; those are entries of the structured content.
\<close>

theorem response_text_and_metadata:
  "mcp_content (formatExecutionResponse tool result requestId aType mdl) =
     [\<lparr>mcp_text = (if stdout result \<noteq> [] then stdout result
                   else if stderr result \<noteq> [] then stderr result
                   else ''No output'')\<rparr>]
   \<and> map_of (structuredContent (formatExecutionResponse tool result requestId aType mdl)) ''exitCode''
       = Some (JNum (exitCode result))
   \<and> map_of (structuredContent (formatExecutionResponse tool result requestId aType mdl)) ''executionTime''
       = Some (JNum (int (executionTime result)))
   \<and> map_of (structuredContent (formatExecutionResponse tool result requestId aType mdl)) ''agentType''
       = (case aType of None \<Rightarrow> None | Some s \<Rightarrow> if s \<noteq> [] then Some (JStr s) else None)
   \<and> map_of (structuredContent (formatExecutionResponse tool result requestId aType mdl)) ''model''
       = (case mdl of None \<Rightarrow> None | Some s \<Rightarrow> if s \<noteq> [] then Some (JStr s) else None)
   \<and> map_of (structuredContent (formatExecutionResponse tool result requestId aType mdl)) ''usageCount''
       = Some (JNum (int (count (executionStats tool))))
   \<and> map_of (structuredContent (formatExecutionResponse tool result requestId aType mdl)) ''averageTime''
       = Some (averageTime (executionStats tool))"
  by (simp add: formatExecutionResponse_def Let_def map_of_mapSet map_of_setIfTruthyStr
        map_of_setIfTruthyStr_same)

theorem response_text_and_metadata_witness:
  "mcp_content (formatExecutionResponse
      (updateExecutionStats (newDynamicAgentTool ''a'' ''d'') 100)
      \<lparr>stdout = [], stderr = ''Execution error'', exitCode = 1, executionTime = 100,
       hasResult = False, resultJson = JUndefined\<rparr> (Some ''rid'') (Some ''cursor'') (Some ''gpt-4''))
     = [\<lparr>mcp_text = ''Execution error''\<rparr>]
   \<and> map_of (structuredContent (formatExecutionResponse
      (updateExecutionStats (newDynamicAgentTool ''a'' ''d'') 100)
      \<lparr>stdout = [], stderr = ''Execution error'', exitCode = 1, executionTime = 100,
       hasResult = False, resultJson = JUndefined\<rparr> (Some ''rid'') (Some ''cursor'') (Some ''gpt-4'')))
      ''averageTime'' = Some (JNum 100)"
  using response_text_and_metadata [of
      "updateExecutionStats (newDynamicAgentTool ''a'' ''d'') 100"
      "\<lparr>stdout = [], stderr = ''Execution error'', exitCode = 1, executionTime = 100,
        hasResult = False, resultJson = JUndefined\<rparr>" "Some ''rid''" "Some ''cursor''" "Some ''gpt-4''"]
  by (simp add: updateExecutionStats_def newDynamicAgentTool_def averageTime_def)

section \<open>Properties of the parameter validation\<close>

lemma trim_replicate_spaces:
  "\<not> isSpace c \<Longrightarrow> list_all isSpace w \<Longrightarrow> trim (replicate (Suc n) c @ w) = replicate (Suc n) c"
proof -
  assume c: "\<not> isSpace c" and w: "list_all isSpace w"
  have "dropWhile isSpace (rev w @ replicate (Suc n) c) = dropWhile isSpace (replicate (Suc n) c)"
    using w by (intro dropWhile_append2) (simp add: list_all_iff)
  then show ?thesis using c by (simp add: trim_def del: replicate.simps replicate_Suc)
qed

lemma trim_replicate: "\<not> isSpace c \<Longrightarrow> trim (replicate (Suc n) c) = replicate (Suc n) c"
  using trim_replicate_spaces [of c "[]" n] by simp

lemma trim_50001: "trim (replicate 50000 (CHR ''a'') @ '' '') = replicate 50000 (CHR ''a'')"
  using trim_replicate_spaces [of "CHR ''a''" "'' ''" 49999]
  by (simp add: isSpace_def)

lemma trim_nonempty_is_string:
  "trim s \<noteq> [] \<Longrightarrow> s \<noteq> []"
  by (auto simp add: trim_def)

lemma validateParams_prompt_sound:
  "validateParams params = Inr vp \<Longrightarrow>
     prompt vp = trim (strOf (getProp params ''prompt'')) \<and> prompt vp \<noteq> [] \<and> length (prompt vp) \<le> 50000"
  by (auto simp add: validateParams_def split: if_splits sum.splits)

lemma checkExtraArgs_message:
  "checkExtraArgs i xs = Inl e \<Longrightarrow> \<exists>m. e = Error (''Extra argument at index '' @ m)"
  by (induction xs arbitrary: i) (auto split: if_splits sum.splits)

lemma validateOutputInstructions_message:
  "validateOutputInstructions v = Inl e \<Longrightarrow>
     e \<noteq> Error ''Prompt parameter is required and must be a string''
     \<and> e \<noteq> Error ''Invalid prompt parameter: cannot be empty''
     \<and> e \<noteq> Error ''Prompt too long (max 50,000 characters)''"
  by (auto simp add: validateOutputInstructions_def split: if_splits)

lemma validateCwd_message:
  "validateCwd v = Inl e \<Longrightarrow>
     e \<noteq> Error ''Prompt parameter is required and must be a string''
     \<and> e \<noteq> Error ''Invalid prompt parameter: cannot be empty''
     \<and> e \<noteq> Error ''Prompt too long (max 50,000 characters)''"
  by (auto simp add: validateCwd_def split: if_splits)

lemma validateExtraArgs_message:
  "validateExtraArgs v = Inl e \<Longrightarrow>
     e \<noteq> Error ''Prompt parameter is required and must be a string''
     \<and> e \<noteq> Error ''Invalid prompt parameter: cannot be empty''
     \<and> e \<noteq> Error ''Prompt too long (max 50,000 characters)''"
  by (auto simp add: validateExtraArgs_def split: if_splits sum.splits jsval.splits
      dest!: checkExtraArgs_message)

lemma validateParams_prompt_passed:
  assumes "truthy params" and "typeof params = ''object''" and "getProp params ''prompt'' = JStr s"
    and "s \<noteq> []" and "trim s \<noteq> []" and "length (trim s) \<le> 50000"
  shows "validateParams params \<noteq> Inl (Error ''Prompt parameter is required and must be a string'')
    \<and> validateParams params \<noteq> Inl (Error ''Invalid prompt parameter: cannot be empty'')
    \<and> validateParams params \<noteq> Inl (Error ''Prompt too long (max 50,000 characters)'')"
proof (cases "validateOutputInstructions (getProp params ''output_instructions'')")
  case (Inl e)
  with assms have "validateParams params = Inl e" by (simp add: validateParams_def)
  with validateOutputInstructions_message [OF Inl] show ?thesis by simp
next
  case oi: (Inr oi)
  show ?thesis
  proof (cases "validateCwd (getProp params ''cwd'')")
    case (Inl e)
    with assms oi have "validateParams params = Inl e" by (simp add: validateParams_def)
    with validateCwd_message [OF Inl] show ?thesis by simp
  next
    case wd: (Inr wd)
    show ?thesis
    proof (cases "validateExtraArgs (getProp params ''extra_args'')")
      case (Inl e)
      with assms oi wd have "validateParams params = Inl e" by (simp add: validateParams_def)
      with validateExtraArgs_message [OF Inl] show ?thesis by simp
    next
      case (Inr args)
      with assms oi wd show ?thesis by (simp add: validateParams_def)
    qed
  qed
qed

text \<open>
  C5, amended: for every input object, validation fails with a message containing
  \<open>required\<close> when the prompt is missing, is not a string or is the empty string; fails
  with \<open>cannot be empty\<close> when the prompt is made of white space only; fails with a
  message containing \<open>too long\<close> when the prompt, once trimmed, is longer than 50,000
  characters; and accepts, trimmed, a prompt whose trimmed length is between 1 and 50,000
  when the three optional fields pass their own checks (whatever they hold, the
  validation then never fails with one of the three messages about the prompt). The
  length is measured after trimming, so white space around the prompt does not count; an
  accepted prompt always has a trimmed length between 1 and 50,000.
\<close>

theorem validateParams_prompt:
  "(truthy params \<and> typeof params = ''object''
      \<and> (typeof (getProp params ''prompt'') \<noteq> ''string'' \<or> getProp params ''prompt'' = JStr [])
     \<longrightarrow> validateParams params = Inl (Error ''Prompt parameter is required and must be a string''))
   \<and> (truthy params \<and> typeof params = ''object'' \<and> getProp params ''prompt'' = JStr s
       \<and> s \<noteq> [] \<and> trim s = []
     \<longrightarrow> validateParams params = Inl (Error ''Invalid prompt parameter: cannot be empty''))
   \<and> (truthy params \<and> typeof params = ''object'' \<and> getProp params ''prompt'' = JStr s
       \<and> length (trim s) > 50000
     \<longrightarrow> validateParams params = Inl (Error ''Prompt too long (max 50,000 characters)''))
   \<and> (truthy params \<and> typeof params = ''object'' \<and> getProp params ''prompt'' = JStr s
       \<and> 0 < length (trim s) \<and> length (trim s) \<le> 50000
       \<and> validateOutputInstructions (getProp params ''output_instructions'') = Inr oi
       \<and> validateCwd (getProp params ''cwd'') = Inr wd
       \<and> validateExtraArgs (getProp params ''extra_args'') = Inr args
     \<longrightarrow> validateParams params
           = Inr \<lparr>prompt = trim s, output_instructions = oi, cwd = wd, extra_args = args\<rparr>)
   \<and> (truthy params \<and> typeof params = ''object'' \<and> getProp params ''prompt'' = JStr s
       \<and> 0 < length (trim s) \<and> length (trim s) \<le> 50000
     \<longrightarrow> validateParams params \<noteq> Inl (Error ''Prompt parameter is required and must be a string'')
         \<and> validateParams params \<noteq> Inl (Error ''Invalid prompt parameter: cannot be empty'')
         \<and> validateParams params \<noteq> Inl (Error ''Prompt too long (max 50,000 characters)''))
   \<and> (validateParams params = Inr vp
     \<longrightarrow> prompt vp = trim (strOf (getProp params ''prompt'')) \<and> prompt vp \<noteq> []
         \<and> length (prompt vp) \<le> 50000)
   \<and> str_includes ''Prompt parameter is required and must be a string'' ''required''
   \<and> str_includes ''Prompt too long (max 50,000 characters)'' ''too long''"
proof (intro conjI impI)
  assume "truthy params \<and> typeof params = ''object''
      \<and> (typeof (getProp params ''prompt'') \<noteq> ''string'' \<or> getProp params ''prompt'' = JStr [])"
  then show "validateParams params = Inl (Error ''Prompt parameter is required and must be a string'')"
    by (auto simp add: validateParams_def)
next
  assume "truthy params \<and> typeof params = ''object'' \<and> getProp params ''prompt'' = JStr s
       \<and> s \<noteq> [] \<and> trim s = []"
  then show "validateParams params = Inl (Error ''Invalid prompt parameter: cannot be empty'')"
    by (simp add: validateParams_def)
next
  assume a: "truthy params \<and> typeof params = ''object'' \<and> getProp params ''prompt'' = JStr s
       \<and> length (trim s) > 50000"
  then have "trim s \<noteq> []" by auto
  then have "s \<noteq> []" by (rule trim_nonempty_is_string)
  with a \<open>trim s \<noteq> []\<close> show "validateParams params = Inl (Error ''Prompt too long (max 50,000 characters)'')"
    by (simp add: validateParams_def)
next
  assume a: "truthy params \<and> typeof params = ''object'' \<and> getProp params ''prompt'' = JStr s
       \<and> 0 < length (trim s) \<and> length (trim s) \<le> 50000
       \<and> validateOutputInstructions (getProp params ''output_instructions'') = Inr oi
       \<and> validateCwd (getProp params ''cwd'') = Inr wd
       \<and> validateExtraArgs (getProp params ''extra_args'') = Inr args"
  then have "trim s \<noteq> []" by auto
  then have "s \<noteq> []" by (rule trim_nonempty_is_string)
  with a \<open>trim s \<noteq> []\<close> show "validateParams params
           = Inr \<lparr>prompt = trim s, output_instructions = oi, cwd = wd, extra_args = args\<rparr>"
    by (simp add: validateParams_def)
next
  assume a: "truthy params \<and> typeof params = ''object'' \<and> getProp params ''prompt'' = JStr s
       \<and> 0 < length (trim s) \<and> length (trim s) \<le> 50000"
  then have "trim s \<noteq> []" by auto
  then have "s \<noteq> []" by (rule trim_nonempty_is_string)
  with a \<open>trim s \<noteq> []\<close>
  show "validateParams params \<noteq> Inl (Error ''Prompt parameter is required and must be a string'')"
    and "validateParams params \<noteq> Inl (Error ''Invalid prompt parameter: cannot be empty'')"
    and "validateParams params \<noteq> Inl (Error ''Prompt too long (max 50,000 characters)'')"
    using validateParams_prompt_passed [of params s] by simp_all
next
  assume "validateParams params = Inr vp"
  then show "prompt vp = trim (strOf (getProp params ''prompt''))"
    and "prompt vp \<noteq> []" and "length (prompt vp) \<le> 50000"
    using validateParams_prompt_sound by blast+
next
  show "str_includes ''Prompt parameter is required and must be a string'' ''required''"
    by simp
next
  show "str_includes ''Prompt too long (max 50,000 characters)'' ''too long''"
    by simp
qed

theorem validateParams_prompt_witness:
  "validateParams (JObj []) = Inl (Error ''Prompt parameter is required and must be a string'')
   \<and> validateParams (JObj [(''prompt'', JStr ''   '')])
       = Inl (Error ''Invalid prompt parameter: cannot be empty'')
   \<and> validateParams (JObj [(''prompt'', JStr (replicate 50001 (CHR ''a'')))])
       = Inl (Error ''Prompt too long (max 50,000 characters)'')
   \<and> validateParams (JObj [(''prompt'', JStr (replicate 50000 (CHR ''a'')))])
       = Inr \<lparr>prompt = replicate 50000 (CHR ''a''), output_instructions = None, cwd = None,
              extra_args = None\<rparr>"
proof -
  have t0: "trim ''   '' = []"
    by (simp add: trim_def isSpace_def)
  have t1: "trim (replicate 50001 (CHR ''a'')) = replicate 50001 (CHR ''a'')"
    using trim_replicate [of "CHR ''a''" 50000] by (simp add: isSpace_def)
  have t2: "trim (replicate 50000 (CHR ''a'')) = replicate 50000 (CHR ''a'')"
    using trim_replicate [of "CHR ''a''" 49999] by (simp add: isSpace_def)
  have r1: "validateParams (JObj []) = Inl (Error ''Prompt parameter is required and must be a string'')"
    using validateParams_prompt [of "JObj []" "[]", THEN conjunct1] by simp
  have r2: "validateParams (JObj [(''prompt'', JStr ''   '')])
       = Inl (Error ''Invalid prompt parameter: cannot be empty'')"
    using validateParams_prompt [of "JObj [(''prompt'', JStr ''   '')]" "''   ''",
        THEN conjunct2, THEN conjunct1] t0 by simp
  have r3: "validateParams (JObj [(''prompt'', JStr (replicate 50001 (CHR ''a'')))])
       = Inl (Error ''Prompt too long (max 50,000 characters)'')"
    using validateParams_prompt [of "JObj [(''prompt'', JStr (replicate 50001 (CHR ''a'')))]"
        "replicate 50001 (CHR ''a'')", THEN conjunct2, THEN conjunct2, THEN conjunct1]
    by (simp add: t1)
  have r4: "validateParams (JObj [(''prompt'', JStr (replicate 50000 (CHR ''a'')))])
       = Inr \<lparr>prompt = replicate 50000 (CHR ''a''), output_instructions = None, cwd = None,
              extra_args = None\<rparr>"
    using validateParams_prompt [of "JObj [(''prompt'', JStr (replicate 50000 (CHR ''a'')))]"
        "replicate 50000 (CHR ''a'')" None None None, THEN conjunct2, THEN conjunct2,
        THEN conjunct2, THEN conjunct1]
    by (simp add: t2 validateOutputInstructions_def validateCwd_def validateExtraArgs_def)
  show ?thesis using r1 r2 r3 r4 by simp
qed

text \<open>
  C5 as stated fails: a prompt of 50,001 characters, 50,000 letters and one trailing
  space, is longer than 50,000 characters and is accepted.
\<close>

theorem prompt_over_limit_accepted:
  "length (replicate 50000 (CHR ''a'') @ '' '') = 50001
   \<and> validateParams (JObj [(''prompt'', JStr (replicate 50000 (CHR ''a'') @ '' ''))])
       = Inr \<lparr>prompt = replicate 50000 (CHR ''a''), output_instructions = None, cwd = None,
              extra_args = None\<rparr>"
  by (simp add: validateParams_def trim_50001 validateOutputInstructions_def validateCwd_def
        validateExtraArgs_def)

section \<open>Properties of the front matter parser\<close>

lemma find_close_no_newline:
  "CHR 0x0A \<notin> set l \<Longrightarrow>
   find_close acc (l @ CHR 0x0A # ''---'' @ CHR 0x0A # body)
     = Some (rev acc @ l, hd (ws_nl_rests body @ [body]))"
proof (induction l arbitrary: acc)
  case Nil
  show ?case
    by (cases "ws_nl_rests body") (simp_all add: isSpace_def)
next
  case (Cons c l)
  then show ?case by simp
qed

lemma split_lines_single: "CHR 0x0A \<notin> set l \<Longrightarrow> split_lines l = [l]"
  by (induction l) auto

lemma find_append:
  "find P (xs @ ys) = (case find P xs of None \<Rightarrow> find P ys | Some x \<Rightarrow> Some x)"
  by (induction xs) simp_all

lemma trim_Cons_space: "isSpace c \<Longrightarrow> trim (c # cs) = trim cs"
  by (simp add: trim_def)

lemma find_value_trim:
  "find P (ws_rests r) = Some v \<Longrightarrow> trim v = trim r"
proof (induction r)
  case Nil
  then show ?case by (simp split: if_splits)
next
  case (Cons c cs)
  show ?case
  proof (cases "isSpace c")
    case True
    show ?thesis
    proof (cases "find P (ws_rests cs)")
      case None
      with Cons.prems True have "v = c # cs"
        by (simp add: find_append split: if_splits)
      then show ?thesis by simp
    next
      case (Some w)
      with Cons.prems True have "v = w"
        by (simp add: find_append)
      with Some Cons.IH True show ?thesis
        by (simp add: trim_Cons_space)
    qed
  next
    case False
    with Cons.prems have "v = c # cs" by (simp split: if_splits)
    then show ?thesis by simp
  qed
qed

lemma find_value_exists:
  "r \<noteq> [] \<Longrightarrow> \<not> list_ex isLineTerminator r \<Longrightarrow>
   \<exists>v. find (\<lambda>v. v \<noteq> [] \<and> \<not> list_ex isLineTerminator v) (ws_rests r) = Some v"
proof -
  assume r: "r \<noteq> []" and nl: "\<not> list_ex isLineTerminator r"
  obtain xs where xs: "ws_rests r = xs @ [r]"
    by (cases r) simp_all
  show ?thesis
    unfolding xs using r nl
    by (cases "find (\<lambda>v. v \<noteq> [] \<and> \<not> list_ex isLineTerminator v) xs") (simp_all add: find_append)
qed

lemma isWord_literals:
  "isWord (CHR ''a'')" "isWord (CHR ''g'')" "isWord (CHR ''e'')" "isWord (CHR ''n'')"
  "isWord (CHR ''t'')" "isWord (CHR ''T'')" "isWord (CHR ''y'')" "isWord (CHR ''p'')"
  "\<not> isWord (CHR '':'')"
  by (simp_all add: isWord_def isAlnum_def inRange_def)

lemma matchKeyValue_agentType:
  assumes "\<not> list_ex isLineTerminator v"
  shows "\<exists>raw. matchKeyValue (''agentType: '' @ v) = Some (''agentType'', raw) \<and> trim raw = trim v"
proof -
  from assms have "\<not> list_ex isLineTerminator (CHR '' '' # v)"
    by (simp add: isLineTerminator_def)
  then obtain raw where raw:
    "find (\<lambda>v. v \<noteq> [] \<and> \<not> list_ex isLineTerminator v) (ws_rests (CHR '' '' # v)) = Some raw"
    using find_value_exists [of "CHR '' '' # v"] by auto
  then have "trim raw = trim (CHR '' '' # v)" by (rule find_value_trim)
  then have t: "trim raw = trim v" by (simp add: trim_Cons_space isSpace_def)
  have "matchKeyValue (''agentType: '' @ v) = Some (''agentType'', raw)"
    using raw by (simp add: matchKeyValue_def isWord_literals Let_def)
  with t show ?thesis by blast
qed

lemma trim_literal_agentType: "trim ''agentType'' = ''agentType''"
  by (simp add: trim_def isSpace_def)

lemma parseLine_agentType:
  assumes "\<not> list_ex isLineTerminator v"
  shows "parseLine fm (''agentType: '' @ v) =
           (if stripQuotes (trim v) = ''cursor'' \<or> stripQuotes (trim v) = ''claude''
            then fm\<lparr>fm_agentType := Some (stripQuotes (trim v))\<rparr> else fm)"
proof -
  obtain raw where raw: "matchKeyValue (''agentType: '' @ v) = Some (''agentType'', raw)"
    and t: "trim raw = trim v"
    using matchKeyValue_agentType [OF assms] by blast
  have e: "stripQuotes [] = []" by (simp add: stripQuotes_def)
  show ?thesis
    unfolding parseLine_def raw
    by (auto simp add: t trim_literal_agentType Let_def e)
qed

lemma parseFrontmatter_agentType:
  assumes "\<not> list_ex isLineTerminator v"
  shows "fst (parseFrontmatter (''---'' @ CHR 0x0A # ''agentType: '' @ v @ CHR 0x0A # ''---'' @ CHR 0x0A # body))
         = (if stripQuotes (trim v) = ''cursor'' \<or> stripQuotes (trim v) = ''claude''
            then emptyFrontmatter\<lparr>fm_agentType := Some (stripQuotes (trim v))\<rparr> else emptyFrontmatter)"
proof -
  from assms have nl: "CHR 0x0A \<notin> set (''agentType: '' @ v)"
    by (auto simp add: list_ex_iff isLineTerminator_def)
  have m: "matchFrontmatter (''---'' @ CHR 0x0A # ''agentType: '' @ v @ CHR 0x0A # ''---'' @ CHR 0x0A # body)
        = Some (''agentType: '' @ v, hd (ws_nl_rests body @ [body]))"
    using find_close_no_newline [OF nl, of "[]" body]
    by (simp add: matchFrontmatter_def isSpace_def)
  show ?thesis
    unfolding parseFrontmatter_def m
    using split_lines_single [OF nl] parseLine_agentType [OF assms, of emptyFrontmatter]
    by simp
qed







































text \<open>
  C3: the definition parsed from the file of the claim. Its \<open>agentType\<close> is \<open>claude\<close>,
  but \<open>tools\<close> holds the unsplit string \<open>tool1, tool2, tool3\<close> and \<open>autoApprovalMode\<close>
  is absent.
\<close>

theorem advanced_agent_parsed:
  "getAgent \<lparr>agentsDir = ''/test/agents'', logLevel = Info\<rparr>
     (Some [(''advanced-agent.md'',
        Some (''---\<newline>name: advanced-agent\<newline>description: 'Agent with tools and auto-approval'\<newline>tools: tool1, tool2, tool3\<newline>autoApprovalMode: true\<newline>model: claude-3\<newline>agentType: claude\<newline>---\<newline>\<newline>Content here.'', 0))])
     ''advanced-agent''
   = Inr (Some \<lparr>name = ''advanced-agent'',
                 description = ''Agent with tools and auto-approval'',
                 content = ''Content here.'',
                 filePath = ''/test/agents/advanced-agent.md'',
                 lastModified = 0,
                 model = Some ''claude-3'',
                 color = None,
                 tools = Some (JStr ''tool1, tool2, tool3''),
                 autoApprovalMode = None,
                 agentType = Some ''claude''\<rparr>)"
  by code_simp

section \<open>Properties of the registry build\<close>

lemma keys_mapSet: "set (map fst (mapSet m k v)) = insert k (set (map fst m))"
  by (induction m k v rule: mapSet.induct) auto

lemma distinct_mapSet: "distinct (map fst m) \<Longrightarrow> distinct (map fst (mapSet m k v))"
proof (induction m k v rule: mapSet.induct)
  case (1 k v)
  then show ?case by simp
next
  case (2 k' v' m k v)
  then show ?case
    using keys_mapSet [of m k v] by auto
qed

lemma one_entry_per_key:
  "distinct (map fst m) \<Longrightarrow> map_of m t = Some v \<Longrightarrow> length (filter (\<lambda>e. fst e = t) m) = 1"
proof (induction m)
  case Nil
  then show ?case by simp
next
  case (Cons e m)
  show ?case
  proof (cases "fst e = t")
    case True
    with Cons.prems have "t \<notin> fst ` set m" by auto
    then have "filter (\<lambda>e. fst e = t) m = []"
      by (auto simp add: filter_empty_conv)
    with True show ?thesis by simp
  next
    case False
    with Cons show ?thesis by (cases e) auto
  qed
qed

lemma tool_name_toolOf: "tool_name (toolOf a) = sanitizeToolName (name a)"
  by (simp add: toolOf_def newDynamicAgentTool_def)

lemma log_fields:
  "dynamicTools (log srv lvl msg md) = dynamicTools srv"
  "config (log srv lvl msg md) = config srv"
  "console (log srv lvl msg md) =
     console srv @ (if logLevels lvl \<ge> logLevels (logLevel (config srv)) then [logEntry lvl msg md] else [])"
  by (simp_all add: log_def)

lemma registryInv_step:
  assumes "registryInv seen tn dt"
  shows "registryInv (seen @ [a])
           (mapSet tn (sanitizeToolName (name a)) (groupNames (seen @ [a]) (sanitizeToolName (name a))))
           (mapSet dt (sanitizeToolName (name a)) (toolOf a))"
  using assms
  unfolding registryInv_def
  by (auto simp add: map_of_mapSet distinct_mapSet groupNames_def sameTool_def)

lemma registerAgents_step:
  assumes inv: "registryInv seen tn (dynamicTools srv)"
  shows "registerAgents getAgentName (a # rest) tn srv =
           registerAgents getAgentName rest
             (mapSet tn (sanitizeToolName (name a)) (groupNames (seen @ [a]) (sanitizeToolName (name a))))
             ((if filter (sameTool (sanitizeToolName (name a))) seen \<noteq> []
               then log srv Warn ''Agent tool name collision detected''
                      (collisionWarning (sanitizeToolName (name a))
                         (groupNames (seen @ [a]) (sanitizeToolName (name a))))
               else srv)\<lparr>dynamicTools := mapSet (dynamicTools srv) (sanitizeToolName (name a)) (toolOf a)\<rparr>)"
proof (cases "filter (sameTool (sanitizeToolName (name a))) seen = []")
  case True
  with inv have "\<not> mapHas (dynamicTools srv) (sanitizeToolName (name a))"
    by (simp add: registryInv_def mapHas_def)
  with True show ?thesis
    by (simp add: Let_def tool_name_toolOf [unfolded toolOf_def] toolOf_def groupNames_def sameTool_def)
next
  case False
  with inv have has: "mapHas (dynamicTools srv) (sanitizeToolName (name a))"
    by (simp add: registryInv_def mapHas_def)
  from inv False have tn: "map_of tn (sanitizeToolName (name a)) = Some (groupNames seen (sanitizeToolName (name a)))"
    by (simp add: registryInv_def)
  from False have ne: "groupNames seen (sanitizeToolName (name a)) \<noteq> []"
    by (simp add: groupNames_def)
  have ex: "existingAgentsFor getAgentName tn srv (sanitizeToolName (name a)) = Inr (groupNames seen (sanitizeToolName (name a)))"
    using tn ne by (simp add: existingAgentsFor_def Let_def)
  have g: "groupNames seen (sanitizeToolName (name a)) @ [name a] = groupNames (seen @ [a]) (sanitizeToolName (name a))"
    by (simp add: groupNames_def sameTool_def)
  show ?thesis
    using False has ex g
    by (simp add: Let_def tool_name_toolOf [unfolded toolOf_def] toolOf_def log_fields)
qed

lemma registerAgents_spec:
  "registryInv seen tn (dynamicTools srv) \<Longrightarrow>
   \<exists>tn' srv'. registerAgents getAgentName rest tn srv = (Inr tn', srv')
     \<and> registryInv (seen @ rest) tn' (dynamicTools srv')
     \<and> config srv' = config srv
     \<and> console srv' = console srv @
          (if logLevels Warn \<ge> logLevels (logLevel (config srv)) then warnsFor seen rest else [])"
proof (induction rest arbitrary: seen tn srv)
  case Nil
  then show ?case by simp
next
  case (Cons a rest)
  let ?t = "sanitizeToolName (name a)"
  let ?tn1 = "mapSet tn ?t (groupNames (seen @ [a]) ?t)"
  let ?srv0 = "if filter (sameTool ?t) seen \<noteq> []
               then log srv Warn ''Agent tool name collision detected''
                      (collisionWarning ?t (groupNames (seen @ [a]) ?t))
               else srv"
  let ?srv1 = "?srv0\<lparr>dynamicTools := mapSet (dynamicTools srv) ?t (toolOf a)\<rparr>"
  have step: "registerAgents getAgentName (a # rest) tn srv = registerAgents getAgentName rest ?tn1 ?srv1"
    using registerAgents_step [OF Cons.prems] .
  have inv1: "registryInv (seen @ [a]) ?tn1 (dynamicTools ?srv1)"
    using registryInv_step [OF Cons.prems, of a] by simp
  have cfg1: "config ?srv1 = config srv"
    by (simp add: log_fields)
  have con1: "console ?srv1 = console srv @
      (if logLevels Warn \<ge> logLevels (logLevel (config srv)) \<and> filter (sameTool ?t) seen \<noteq> []
       then [logEntry Warn ''Agent tool name collision detected''
               (collisionWarning ?t (groupNames (seen @ [a]) ?t))]
       else [])"
    by (simp add: log_fields)
  from Cons.IH [OF inv1] obtain tn' srv' where
    r: "registerAgents getAgentName rest ?tn1 ?srv1 = (Inr tn', srv')"
    and i: "registryInv ((seen @ [a]) @ rest) tn' (dynamicTools srv')"
    and c: "config srv' = config ?srv1"
    and o: "console srv' = console ?srv1 @
          (if logLevels Warn \<ge> logLevels (logLevel (config ?srv1)) then warnsFor (seen @ [a]) rest else [])"
    by blast
  have "registerAgents getAgentName (a # rest) tn srv = (Inr tn', srv')"
    using step r by simp
  moreover have "registryInv (seen @ a # rest) tn' (dynamicTools srv')"
    using i by simp
  moreover have "config srv' = config srv"
    using c cfg1 by simp
  moreover have "console srv' = console srv @
          (if logLevels Warn \<ge> logLevels (logLevel (config srv)) then warnsFor seen (a # rest) else [])"
    unfolding o con1 cfg1 by simp
  ultimately show ?case by blast
qed

lemma warnsFor_mem:
  "j < length rest \<Longrightarrow>
   filter (sameTool (sanitizeToolName (name (rest ! j)))) (seen @ take j rest) \<noteq> [] \<Longrightarrow>
   logEntry Warn ''Agent tool name collision detected''
     (collisionWarning (sanitizeToolName (name (rest ! j)))
        (groupNames (seen @ take (Suc j) rest) (sanitizeToolName (name (rest ! j)))))
   \<in> set (warnsFor seen rest)"
proof (induction rest arbitrary: seen j)
  case Nil
  then show ?case by simp
next
  case (Cons a rest)
  show ?case
  proof (cases j)
    case 0
    with Cons.prems show ?thesis by simp
  next
    case (Suc k)
    with Cons.prems have "k < length rest"
      and "filter (sameTool (sanitizeToolName (name (rest ! k)))) ((seen @ [a]) @ take k rest) \<noteq> []"
      by simp_all
    from Cons.IH [OF this] Suc show ?thesis by simp
  qed
qed

lemma registryInv_empty: "registryInv [] [] []"
  by (simp add: registryInv_def)

lemma two_in_filter:
  assumes "i < j" "j < length xs" "P (xs ! i)" "P (xs ! j)"
  shows "length (filter P xs) > 1"
proof -
  have xs: "xs = take j xs @ xs ! j # drop (Suc j) xs"
    using assms(2) by (simp add: id_take_nth_drop)
  have "xs ! i \<in> set (take j xs)"
    using assms(1,2) by (auto simp add: in_set_conv_nth intro!: exI [of _ i])
  with assms(3) have "filter P (take j xs) \<noteq> []"
    by (auto simp add: filter_empty_conv)
  then have "length (filter P (take j xs)) \<ge> 1"
    by (cases "filter P (take j xs)") simp_all
  moreover have "length (filter P xs) =
      length (filter P (take j xs)) + length (filter P (xs ! j # drop (Suc j) xs))"
    by (subst xs) simp
  moreover have "length (filter P (xs ! j # drop (Suc j) xs)) \<ge> 1"
    using assms(4) by simp
  ultimately show ?thesis by linarith
qed

lemma initializeDynamicTools_build:
  assumes la: "listAgents (config srv) fs = Inr agents" and em: "dynamicTools srv = []"
  shows "\<exists>tn. fst (initializeDynamicTools getAgentName fs srv) = Inr ()
      \<and> registryInv agents tn (dynamicTools (snd (initializeDynamicTools getAgentName fs srv)))
      \<and> console (snd (initializeDynamicTools getAgentName fs srv))
          = buildConsole srv agents tn (length (dynamicTools (snd (initializeDynamicTools getAgentName fs srv))))"
proof -
  let ?srv1 = "log srv Debug ''Initializing dynamic agent tools'' []"
  have inv0: "registryInv [] [] (dynamicTools ?srv1)"
    using em by (simp add: log_fields registryInv_empty)
  from registerAgents_spec [OF inv0, of getAgentName agents] obtain tn srv2 where
    r: "registerAgents getAgentName agents [] ?srv1 = (Inr tn, srv2)"
    and i: "registryInv agents tn (dynamicTools srv2)"
    and c: "config srv2 = config srv"
    and o: "console srv2 = console ?srv1 @
          (if logLevels Warn \<ge> logLevels (logLevel (config ?srv1)) then warnsFor [] agents else [])"
    by (auto simp add: log_fields)
  have e: "logLevels ErrorLevel \<ge> logLevels (logLevel (config srv))"
    by (cases "logLevel (config srv)") simp_all
  have t: "initializeTry getAgentName fs srv =
      (Inr (),
       log (if length (collisionsOf tn) > 0
            then log srv2 ErrorLevel ''Agent tool name collisions detected during initialization''
                   (summaryMetadata (collisionsOf tn))
            else srv2) Info ''Dynamic agent tools initialized successfully''
         [(''agentCount'', JNum (int (length agents))),
          (''toolCount'', JNum (int (length (dynamicTools srv2)))),
          (''collisionCount'', JNum (int (length (collisionsOf tn))))])"
    using la r by (simp add: initializeTry_def Let_def log_fields)
  show ?thesis
    unfolding initializeDynamicTools_def t
    using i c o e
    by (intro exI [of _ tn]) (simp add: log_fields buildConsole_def)
qed

lemma collisionsOf_mem:
  "map_of tn t = Some names \<Longrightarrow> length names > 1 \<Longrightarrow> (t, names) \<in> set (collisionsOf tn)"
  by (auto simp add: collisionsOf_def dest: map_of_SomeD)

text \<open>
  C1, amended: when the registry is built from an empty map and two listed agents, at
  positions \<open>i < j\<close>, have names that sanitize to the same tool name, the build returns
  normally and keeps exactly one tool under that name, the tool of the last listed agent
  with that tool name. The error-level summary is always written; it holds the tool name
  with all its agent names, the hidden ones and the accessible one. The collision warning
  naming both agents is written when the configured log level is \<open>debug\<close>, \<open>info\<close> or
  \<open>warn\<close>: the method \<open>log\<close> drops a warning at level \<open>error\<close>.
\<close>

theorem collision_last_wins:
  assumes "listAgents (config srv) fs = Inr agents" and "dynamicTools srv = []"
    and "i < j" and "j < length agents"
    and "sanitizeToolName (name (agents ! i)) = t" and "sanitizeToolName (name (agents ! j)) = t"
  shows "fst (initializeDynamicTools getAgentName fs srv) = Inr ()
    \<and> length (filter (\<lambda>e. fst e = t) (dynamicTools (snd (initializeDynamicTools getAgentName fs srv)))) = 1
    \<and> map_of (dynamicTools (snd (initializeDynamicTools getAgentName fs srv))) t
        = Some (toolOf (last (filter (sameTool t) agents)))
    \<and> (logLevels (logLevel (config srv)) \<le> logLevels Warn \<longrightarrow>
         (\<exists>names. logEntry Warn ''Agent tool name collision detected'' (collisionWarning t names)
                    \<in> set (console (snd (initializeDynamicTools getAgentName fs srv)))
                  \<and> name (agents ! i) \<in> set names \<and> name (agents ! j) \<in> set names))
    \<and> (\<exists>cs. logEntry ErrorLevel ''Agent tool name collisions detected during initialization''
                (summaryMetadata cs)
                \<in> set (console (snd (initializeDynamicTools getAgentName fs srv)))
              \<and> (t, groupNames agents t) \<in> set cs)
    \<and> collisionSummary (t, groupNames agents t)
        = JObj [(''toolName'', JStr t),
                (''agentNames'', JArr (map JStr (groupNames agents t))),
                (''hiddenAgents'', JArr (map JStr (butlast (groupNames agents t)))),
                (''accessibleAgent'', JStr (name (last (filter (sameTool t) agents))))]"
proof -
  let ?final = "snd (initializeDynamicTools getAgentName fs srv)"
  from initializeDynamicTools_build [OF assms(1,2), of getAgentName] obtain tn where
    ok: "fst (initializeDynamicTools getAgentName fs srv) = Inr ()"
    and inv: "registryInv agents tn (dynamicTools ?final)"
    and con: "console ?final = buildConsole srv agents tn (length (dynamicTools ?final))"
    by blast
  have si: "sameTool t (agents ! i)" and sj: "sameTool t (agents ! j)"
    using assms(5,6) by (simp_all add: sameTool_def)
  have many: "length (filter (sameTool t) agents) > 1"
    using two_in_filter [OF assms(3,4) si sj] .
  then have ne: "filter (sameTool t) agents \<noteq> []" by auto
  have reg: "map_of (dynamicTools ?final) t = Some (toolOf (last (filter (sameTool t) agents)))"
    using inv ne by (simp add: registryInv_def)
  have dist: "distinct (map fst (dynamicTools ?final))"
    using inv by (simp add: registryInv_def)
  have one: "length (filter (\<lambda>e. fst e = t) (dynamicTools ?final)) = 1"
    using one_entry_per_key [OF dist reg] .
  have tn: "map_of tn t = Some (groupNames agents t)"
    using inv ne by (simp add: registryInv_def)
  have "length (groupNames agents t) > 1"
    using many by (simp add: groupNames_def)
  then have mem: "(t, groupNames agents t) \<in> set (collisionsOf tn)"
    using collisionsOf_mem [OF tn] by simp
  then have "length (collisionsOf tn) > 0" by auto
  then have err: "logEntry ErrorLevel ''Agent tool name collisions detected during initialization''
                (summaryMetadata (collisionsOf tn)) \<in> set (console ?final)"
    unfolding con by (simp add: buildConsole_def)
  have warn: "\<exists>names. logEntry Warn ''Agent tool name collision detected'' (collisionWarning t names)
                    \<in> set (console ?final)
                  \<and> name (agents ! i) \<in> set names \<and> name (agents ! j) \<in> set names"
    if lvl: "logLevels (logLevel (config srv)) \<le> logLevels Warn"
  proof -
    have ii: "agents ! i \<in> set (take j agents)"
      using assms(3,4) by (auto simp add: in_set_conv_nth intro!: exI [of _ i])
    then have pre: "filter (sameTool (sanitizeToolName (name (agents ! j)))) ([] @ take j agents) \<noteq> []"
      using si assms(6) by (auto simp add: filter_empty_conv)
    have w: "logEntry Warn ''Agent tool name collision detected''
               (collisionWarning t (groupNames (take (Suc j) agents) t)) \<in> set (warnsFor [] agents)"
      using warnsFor_mem [OF assms(4) pre] assms(6) by simp
    have "logEntry Warn ''Agent tool name collision detected''
               (collisionWarning t (groupNames (take (Suc j) agents) t)) \<in> set (console ?final)"
      unfolding con using w lvl by (simp add: buildConsole_def)
    moreover have "agents ! i \<in> set (take (Suc j) agents)"
      using assms(3,4) by (auto simp add: in_set_conv_nth intro!: exI [of _ i])
    then have "name (agents ! i) \<in> set (groupNames (take (Suc j) agents) t)"
      using si by (auto simp add: groupNames_def)
    moreover have "agents ! j \<in> set (take (Suc j) agents)"
      using assms(4) by (auto simp add: in_set_conv_nth intro!: exI [of _ j])
    then have "name (agents ! j) \<in> set (groupNames (take (Suc j) agents) t)"
      using sj by (auto simp add: groupNames_def)
    ultimately show ?thesis by blast
  qed
  have summ: "collisionSummary (t, groupNames agents t)
        = JObj [(''toolName'', JStr t),
                (''agentNames'', JArr (map JStr (groupNames agents t))),
                (''hiddenAgents'', JArr (map JStr (butlast (groupNames agents t)))),
                (''accessibleAgent'', JStr (name (last (filter (sameTool t) agents))))]"
    using ne by (simp add: collisionSummary_def groupNames_def last_map)
  from ok one reg warn err mem summ show ?thesis by blast
qed

theorem collision_last_wins_witness:
  "length (filter (\<lambda>e. fst e = ''agent_my_agent'')
      (dynamicTools (snd (initializeDynamicTools (\<lambda>tool. Inr (agentName tool))
         (Some [(''my_agent.md'', Some (''# First'', 0)), (''my agent.md'', Some (''# Second'', 0))])
         \<lparr>config = \<lparr>agentsDir = ''/agents'', logLevel = Warn\<rparr>, dynamicTools = [], console = []\<rparr>)))) = 1
   \<and> map_of (dynamicTools (snd (initializeDynamicTools (\<lambda>tool. Inr (agentName tool))
         (Some [(''my_agent.md'', Some (''# First'', 0)), (''my agent.md'', Some (''# Second'', 0))])
         \<lparr>config = \<lparr>agentsDir = ''/agents'', logLevel = Warn\<rparr>, dynamicTools = [], console = []\<rparr>)))
       ''agent_my_agent''
     = Some (newDynamicAgentTool ''my agent'' ''Second'')
   \<and> (\<exists>names. logEntry Warn ''Agent tool name collision detected''
                  (collisionWarning ''agent_my_agent'' names)
         \<in> set (console (snd (initializeDynamicTools (\<lambda>tool. Inr (agentName tool))
         (Some [(''my_agent.md'', Some (''# First'', 0)), (''my agent.md'', Some (''# Second'', 0))])
         \<lparr>config = \<lparr>agentsDir = ''/agents'', logLevel = Warn\<rparr>, dynamicTools = [], console = []\<rparr>)))
         \<and> ''my_agent'' \<in> set names \<and> ''my agent'' \<in> set names)
   \<and> (\<exists>cs. logEntry ErrorLevel ''Agent tool name collisions detected during initialization''
                (summaryMetadata cs)
         \<in> set (console (snd (initializeDynamicTools (\<lambda>tool. Inr (agentName tool))
         (Some [(''my_agent.md'', Some (''# First'', 0)), (''my agent.md'', Some (''# Second'', 0))])
         \<lparr>config = \<lparr>agentsDir = ''/agents'', logLevel = Warn\<rparr>, dynamicTools = [], console = []\<rparr>)))
         \<and> (''agent_my_agent'', [''my_agent'', ''my agent'']) \<in> set cs)"
proof -
  let ?a1 = "\<lparr>name = ''my_agent'', description = ''First'', content = ''# First'',
              filePath = ''/agents/my_agent.md'', lastModified = 0, model = None, color = None,
              tools = None, autoApprovalMode = None, agentType = None\<rparr>"
  let ?a2 = "\<lparr>name = ''my agent'', description = ''Second'', content = ''# Second'',
              filePath = ''/agents/my agent.md'', lastModified = 0, model = None, color = None,
              tools = None, autoApprovalMode = None, agentType = None\<rparr>"
  let ?srv = "\<lparr>config = \<lparr>agentsDir = ''/agents'', logLevel = Warn\<rparr>, dynamicTools = [], console = []\<rparr>"
  let ?fs = "Some [(''my_agent.md'', Some (''# First'', 0)), (''my agent.md'', Some (''# Second'', 0))]"
  have h1: "listAgents (config ?srv) ?fs = Inr [?a1, ?a2]"
    by code_simp
  have h2: "dynamicTools ?srv = []" by simp
  have h3: "(0::nat) < 1" by simp
  have h4: "1 < length [?a1, ?a2]" by simp
  have h5: "sanitizeToolName (name ([?a1, ?a2] ! 0)) = ''agent_my_agent''" by code_simp
  have h6: "sanitizeToolName (name ([?a1, ?a2] ! 1)) = ''agent_my_agent''" by code_simp
  have f: "filter (sameTool ''agent_my_agent'') [?a1, ?a2] = [?a1, ?a2]"
    by code_simp
  have g: "groupNames [?a1, ?a2] ''agent_my_agent'' = [''my_agent'', ''my agent'']"
    by code_simp
  show ?thesis
    using collision_last_wins [OF h1 h2 h3 h4 h5 h6, of "\<lambda>tool. Inr (agentName tool)",
        unfolded f g]
    by (simp add: toolOf_def)
qed

text \<open>
  C1 as stated fails at log level \<open>error\<close>: two agents collide and the only line written
  is the error-level summary; no warning is logged.
\<close>

theorem collision_warning_filtered:
  "listAgents \<lparr>agentsDir = ''/agents'', logLevel = ErrorLevel\<rparr>
     (Some [(''my_agent.md'', Some (''# First'', 0)), (''my agent.md'', Some (''# Second'', 0))])
   = Inr [\<lparr>name = ''my_agent'', description = ''First'', content = ''# First'',
            filePath = ''/agents/my_agent.md'', lastModified = 0, model = None, color = None,
            tools = None, autoApprovalMode = None, agentType = None\<rparr>,
          \<lparr>name = ''my agent'', description = ''Second'', content = ''# Second'',
            filePath = ''/agents/my agent.md'', lastModified = 0, model = None, color = None,
            tools = None, autoApprovalMode = None, agentType = None\<rparr>]
   \<and> sanitizeToolName ''my_agent'' = sanitizeToolName ''my agent''
   \<and> console (snd (initializeDynamicTools (\<lambda>tool. Inr (agentName tool))
         (Some [(''my_agent.md'', Some (''# First'', 0)), (''my agent.md'', Some (''# Second'', 0))])
         \<lparr>config = \<lparr>agentsDir = ''/agents'', logLevel = ErrorLevel\<rparr>, dynamicTools = [], console = []\<rparr>))
     = [[(''level'', JStr ''error''),
         (''message'', JStr ''Agent tool name collisions detected during initialization''),
         (''service'', JStr ''mcp-server''),
         (''collisionCount'', JNum 1),
         (''collisions'', JArr [JObj [(''toolName'', JStr ''agent_my_agent''),
                                      (''agentNames'', JArr [JStr ''my_agent'', JStr ''my agent'']),
                                      (''hiddenAgents'', JArr [JStr ''my_agent'']),
                                      (''accessibleAgent'', JStr ''my agent'')]]),
         (''recommendation'',
          JStr (''Rename agents to avoid name collisions after sanitization. '' @
                ''Agent names should differ by more than just special characters or spaces.''))]]"
  by code_simp

text \<open>
  C7: when the \<open>try\<close> block of the registry build throws, the build still returns
  normally and the registry it leaves is empty, however many tools the block had
  registered; a server whose registry was empty then lists no tools.
\<close>

theorem initialize_failure_clears:
  "fst (initializeTry getAgentName fs srv) = Inl e \<Longrightarrow>
     fst (initializeDynamicTools getAgentName fs srv) = Inr ()
     \<and> dynamicTools (snd (initializeDynamicTools getAgentName fs srv)) = []
     \<and> (dynamicTools srv = [] \<longrightarrow> fst (listTools getAgentName fs srv) = [])"
  by (cases "initializeTry getAgentName fs srv")
     (auto simp add: initializeDynamicTools_def listTools_def Let_def)

theorem initialize_failure_clears_witness:
  "fst (initializeTry (\<lambda>tool. Inr (agentName tool)) None
          \<lparr>config = \<lparr>agentsDir = ''/agents'', logLevel = Info\<rparr>, dynamicTools = [], console = []\<rparr>)
     = Inl (Error ''Failed to load agents from directory: /agents'')
   \<and> fst (initializeDynamicTools (\<lambda>tool. Inr (agentName tool)) None
          \<lparr>config = \<lparr>agentsDir = ''/agents'', logLevel = Info\<rparr>, dynamicTools = [], console = []\<rparr>)
     = Inr ()
   \<and> fst (listTools (\<lambda>tool. Inr (agentName tool)) None
          \<lparr>config = \<lparr>agentsDir = ''/agents'', logLevel = Info\<rparr>, dynamicTools = [], console = []\<rparr>)
     = []
   \<and> fst (initializeTry (\<lambda>tool. Inl (Error ''existingTool.getAgentName is not a function''))
          (Some [(''b.md'', Some (''# B'', 0)), (''a.md'', Some (''# A'', 0))])
          \<lparr>config = \<lparr>agentsDir = ''/agents'', logLevel = Info\<rparr>,
           dynamicTools = [(''agent_a'', newDynamicAgentTool ''a'' ''A'')], console = []\<rparr>)
     = Inl (Error ''existingTool.getAgentName is not a function'')
   \<and> length (dynamicTools (snd (initializeTry
          (\<lambda>tool. Inl (Error ''existingTool.getAgentName is not a function''))
          (Some [(''b.md'', Some (''# B'', 0)), (''a.md'', Some (''# A'', 0))])
          \<lparr>config = \<lparr>agentsDir = ''/agents'', logLevel = Info\<rparr>,
           dynamicTools = [(''agent_a'', newDynamicAgentTool ''a'' ''A'')], console = []\<rparr>))) = 2
   \<and> dynamicTools (snd (initializeDynamicTools
          (\<lambda>tool. Inl (Error ''existingTool.getAgentName is not a function''))
          (Some [(''b.md'', Some (''# B'', 0)), (''a.md'', Some (''# A'', 0))])
          \<lparr>config = \<lparr>agentsDir = ''/agents'', logLevel = Info\<rparr>,
           dynamicTools = [(''agent_a'', newDynamicAgentTool ''a'' ''A'')], console = []\<rparr>)) = []"
proof -
  have a: "fst (initializeTry (\<lambda>tool. Inr (agentName tool)) None
          \<lparr>config = \<lparr>agentsDir = ''/agents'', logLevel = Info\<rparr>, dynamicTools = [], console = []\<rparr>)
     = Inl (Error ''Failed to load agents from directory: /agents'')"
    by code_simp
  have b: "fst (initializeTry (\<lambda>tool. Inl (Error ''existingTool.getAgentName is not a function''))
          (Some [(''b.md'', Some (''# B'', 0)), (''a.md'', Some (''# A'', 0))])
          \<lparr>config = \<lparr>agentsDir = ''/agents'', logLevel = Info\<rparr>,
           dynamicTools = [(''agent_a'', newDynamicAgentTool ''a'' ''A'')], console = []\<rparr>)
     = Inl (Error ''existingTool.getAgentName is not a function'')"
    by code_simp
  have c: "length (dynamicTools (snd (initializeTry
          (\<lambda>tool. Inl (Error ''existingTool.getAgentName is not a function''))
          (Some [(''b.md'', Some (''# B'', 0)), (''a.md'', Some (''# A'', 0))])
          \<lparr>config = \<lparr>agentsDir = ''/agents'', logLevel = Info\<rparr>,
           dynamicTools = [(''agent_a'', newDynamicAgentTool ''a'' ''A'')], console = []\<rparr>))) = 2"
    by code_simp
  show ?thesis
    using initialize_failure_clears [OF a] initialize_failure_clears [OF b] a b c
    by simp
qed

section \<open>Properties of execute\<close>

lemma checkExtraArgs_error: "checkExtraArgs i xs = Inl e \<Longrightarrow> \<exists>m. e = Error m"
  by (induction xs arbitrary: i) (auto split: if_splits sum.splits)

lemma validateParams_error: "validateParams params = Inl e \<Longrightarrow> \<exists>m. e = Error m"
  by (auto simp add: validateParams_def validateOutputInstructions_def validateCwd_def
        validateExtraArgs_def
      split: if_splits sum.splits jsval.splits dest: checkExtraArgs_error)

lemma createErrorResponse_fields:
  "isError (createErrorResponse tool msg)"
  "mcp_content (createErrorResponse tool msg) = [\<lparr>mcp_text = ''Error: '' @ msg\<rparr>]"
  by (simp_all add: createErrorResponse_def)

text \<open>
  C8: \<open>execute\<close> always returns. When parameter validation fails, it returns an error
  response whose text is \<open>Error: Agent execution failed:\<close> followed by the message of the
  validation error; when the agent is not found, an error response naming the agent.
  An error response has \<open>isError\<close> true.
\<close>

theorem execute_failures_are_responses:
  "(validateParams params = Inl e \<longrightarrow>
      (\<exists>m. e = Error m
         \<and> execute tool cfg fs executeAgent requestId params
             = Inr (createErrorResponse tool (''Agent execution failed: '' @ m), tool)))
   \<and> (validateParams params = Inr vp \<and> getAgent cfg fs (agentName tool) = Inr None \<longrightarrow>
        execute tool cfg fs executeAgent requestId params
          = Inr (createErrorResponse tool
                   (''Agent execution failed: Agent '' @ [CHR 0x27] @ agentName tool @ [CHR 0x27]
                    @ '' not found''), tool))
   \<and> isError (createErrorResponse tool msg)
   \<and> mcp_content (createErrorResponse tool msg) = [\<lparr>mcp_text = ''Error: '' @ msg\<rparr>]
   \<and> (\<exists>r. execute tool cfg fs executeAgent requestId params = Inr r)"
proof (intro conjI impI)
  assume v: "validateParams params = Inl e"
  then obtain m where m: "e = Error m" using validateParams_error by blast
  with v show "\<exists>m. e = Error m
         \<and> execute tool cfg fs executeAgent requestId params
             = Inr (createErrorResponse tool (''Agent execution failed: '' @ m), tool)"
    by (simp add: execute_def executeTry_def errorMessageOr_def)
next
  assume "validateParams params = Inr vp \<and> getAgent cfg fs (agentName tool) = Inr None"
  then show "execute tool cfg fs executeAgent requestId params
          = Inr (createErrorResponse tool
                   (''Agent execution failed: Agent '' @ [CHR 0x27] @ agentName tool @ [CHR 0x27]
                    @ '' not found''), tool)"
    by (simp add: execute_def executeTry_def errorMessageOr_def)
next
  show "isError (createErrorResponse tool msg)"
    by (rule createErrorResponse_fields)
next
  show "mcp_content (createErrorResponse tool msg) = [\<lparr>mcp_text = ''Error: '' @ msg\<rparr>]"
    by (rule createErrorResponse_fields)
next
  show "\<exists>r. execute tool cfg fs executeAgent requestId params = Inr r"
    by (cases "executeTry tool cfg fs executeAgent requestId params") (simp_all add: execute_def)
qed

theorem execute_failures_are_responses_witness:
  "execute (newDynamicAgentTool ''test-agent'' ''Test agent'')
      \<lparr>agentsDir = ''/test/agents'', logLevel = Info\<rparr> (Some [])
      (\<lambda>p. Inl (Thrown ''unused'')) ''rid'' (JObj [])
     = Inr (createErrorResponse (newDynamicAgentTool ''test-agent'' ''Test agent'')
              ''Agent execution failed: Prompt parameter is required and must be a string'',
            newDynamicAgentTool ''test-agent'' ''Test agent'')
   \<and> execute (newDynamicAgentTool ''test-agent'' ''Test agent'')
      \<lparr>agentsDir = ''/test/agents'', logLevel = Info\<rparr> (Some [])
      (\<lambda>p. Inl (Thrown ''unused'')) ''rid'' (JObj [(''prompt'', JStr ''Test prompt'')])
     = Inr (createErrorResponse (newDynamicAgentTool ''test-agent'' ''Test agent'')
              ''Agent execution failed: Agent 'test-agent' not found'',
            newDynamicAgentTool ''test-agent'' ''Test agent'')
   \<and> isError (createErrorResponse (newDynamicAgentTool ''test-agent'' ''Test agent'')
              ''Agent execution failed: Agent 'test-agent' not found'')"
proof -
  let ?tool = "newDynamicAgentTool ''test-agent'' ''Test agent''"
  let ?cfg = "\<lparr>agentsDir = ''/test/agents'', logLevel = Info\<rparr>"
  have a: "validateParams (JObj []) = Inl (Error ''Prompt parameter is required and must be a string'')"
    by code_simp
  have b: "validateParams (JObj [(''prompt'', JStr ''Test prompt'')])
      = Inr \<lparr>prompt = ''Test prompt'', output_instructions = None, cwd = None, extra_args = None\<rparr>"
    by code_simp
  have c: "getAgent ?cfg (Some []) (agentName ?tool) = Inr None"
    by code_simp
  have n: "agentName ?tool = ''test-agent''"
    by (simp add: newDynamicAgentTool_def)
  have r1: "execute ?tool ?cfg (Some []) (\<lambda>p. Inl (Thrown ''unused'')) ''rid'' (JObj [])
     = Inr (createErrorResponse ?tool
              ''Agent execution failed: Prompt parameter is required and must be a string'', ?tool)"
    using execute_failures_are_responses [of "JObj []"
        "Error ''Prompt parameter is required and must be a string''" ?tool ?cfg "Some []"
        "\<lambda>p. Inl (Thrown ''unused'')" "''rid''", THEN conjunct1] a
    by simp
  have r2: "execute ?tool ?cfg (Some []) (\<lambda>p. Inl (Thrown ''unused'')) ''rid''
       (JObj [(''prompt'', JStr ''Test prompt'')])
     = Inr (createErrorResponse ?tool ''Agent execution failed: Agent 'test-agent' not found'', ?tool)"
    using execute_failures_are_responses [of "JObj [(''prompt'', JStr ''Test prompt'')]" _
        ?tool ?cfg "Some []" "\<lambda>p. Inl (Thrown ''unused'')" "''rid''"
        "\<lparr>prompt = ''Test prompt'', output_instructions = None, cwd = None, extra_args = None\<rparr>",
        THEN conjunct2, THEN conjunct1] b c n
    by simp
  have r3: "isError (createErrorResponse ?tool ''Agent execution failed: Agent 'test-agent' not found'')"
    using execute_failures_are_responses [of _ _ ?tool _ _ _ _ _
        "''Agent execution failed: Agent 'test-agent' not found''",
        THEN conjunct2, THEN conjunct2, THEN conjunct1] .
  show ?thesis using r1 r2 r3 by simp
qed












end
